theory Spec2Isabelle
  imports Complex_Main
begin

section \<open>The viewport of the graphing engine (src/renderer/Render.ts)\<close>

text \<open>
  The class \<open>Render\<close> owns the camera (centre, scale, grid spacing, stored visible range),
  the list of registered functions and the point stream, and posts evaluate requests to
  the calculation worker. The model is a record of the fields and one HOL function per
  method, passing the record through.

  Numbers: a JavaScript number is an IEEE double. The model computes in \<open>real\<close>, so
  rounding and overflow are not modelled. The one way finite operands give a non-finite
  result, a division by zero, is an outcome of its own (\<open>NonFinite\<close>): from there on the
  source computes with \<open>Infinity\<close> and \<open>NaN\<close>, which the model does not follow.
\<close>

subsection \<open>Data\<close>

text \<open>
  Modelled from the spec: the types of \<open>@/types\<close>, \<open>@/renderer/Graphics\<close>,
  \<open>@/renderer/Function\<close>, \<open>@/utils/List\<close> and \<open>@/utils/Collection\<close> are not among
  the source files. A point is a pair of numbers, a function is \<open>{id, mode, root}\<close> with an
  opaque token tree \<open>'r\<close>, the camera fields are \<open>center\<close> (a pixel-space point), \<open>scale\<close>
  (pixels per unit) and \<open>spacing\<close> (the grid unit). The function list and the point stream
  are sequences, here lists: \<open>add\<close> appends, \<open>unshift\<close> prepends, \<open>clear\<close> empties,
  \<open>getLast\<close> is the last element, \<open>forEach\<close> visits the elements in order.
\<close>

datatype FunctionInputtingType = NORMAL | POLAR

datatype MovingDirection = LEFT | RIGHT

datatype ZoomDirection = ZOOM_IN | ZOOM_OUT

record Point =
  pt_x :: real
  pt_y :: real

record 'r Function =
  fn_id :: nat
  fn_mode :: FunctionInputtingType
  fn_root :: 'r

record DOMRect =
  rect_left :: real
  rect_top :: real

text \<open>What \<open>calculatingWorker.postMessage\<close> is given, in the order of the calls.\<close>

datatype 'r request =
    Evaluate (req_id: nat) (req_mode: FunctionInputtingType) (req_root: 'r)
      (req_x: real) (req_operate: string)
  | Compile string nat FunctionInputtingType
  | CompileAndSet int string FunctionInputtingType

text \<open>
  The data of a message event of the calculation worker. Every field is present in the
  model; the handler reads only those of the message's type.
\<close>

record 'r response =
  res_type :: string
  res_id :: nat
  res_index :: int
  res_mode :: FunctionInputtingType
  res_root :: 'r
  res_x :: real
  res_y :: real
  res_operate :: string

record 'r Render =
  canvas_width :: real
  canvas_height :: real
  ratio :: real
  center :: Point
  scale :: real
  spacing :: real
  mousePoint :: Point
  mouseDown :: bool
  mouseDX :: real
  mouseDY :: real
  cameraPosition :: "real \<times> real"
  zoomingScale :: "real option"
  lastZoomingSize :: "real option"
  functionList :: "'r Function list"
  displayedPoints :: "Point list"
  posted :: "'r request list"

text \<open>
  How a method can end without returning a state: a \<open>TypeError\<close> (a property read on
  \<open>undefined\<close>), a division by zero (see above), or a loop that never exits.
\<close>

datatype failure = TypeError | NonFinite | NoReturn

text \<open>Modelled from the spec: \<open>createPoint\<close> (\<open>@/renderer/Graphics\<close>) makes the point \<open>{x, y}\<close>.\<close>

definition createPoint :: "real \<Rightarrow> real \<Rightarrow> Point" where
  "createPoint a b = \<lparr>pt_x = a, pt_y = b\<rparr>"

subsection \<open>Grid spacing\<close>

definition scalingAdapt :: "'r Render \<Rightarrow> 'r Render" where
  "scalingAdapt st =
     (if scale st * spacing st \<le> 66 then
        (if spacing st = 2 then st\<lparr>spacing := 5\<rparr> else st\<lparr>spacing := spacing st * 2\<rparr>)
      else if scale st * spacing st \<ge> 138 then
        (if spacing st = 5 then st\<lparr>spacing := 2\<rparr> else st\<lparr>spacing := spacing st / 2\<rparr>)
      else st)"

subsection \<open>Sampling one function over a range\<close>

definition delta :: real where
  "delta = 1 / 100"

text \<open>
  The two \<open>for\<close> loops of \<open>calculatePoints\<close>, each posting one evaluate request per
  iteration. With a step that is not positive they never exit: the result is \<open>None\<close>.
\<close>

partial_function (option) forAscending ::
  "'r Function \<Rightarrow> real \<Rightarrow> real \<Rightarrow> real \<Rightarrow> 'r request list option" where
  "forAscending func dx endX v =
     (if v \<le> endX then
        Option.bind (forAscending func dx endX (v + dx))
          (\<lambda>rest. Some (Evaluate (fn_id func) (fn_mode func) (fn_root func) v ''add'' # rest))
      else Some [])"

partial_function (option) forDescending ::
  "'r Function \<Rightarrow> real \<Rightarrow> real \<Rightarrow> real \<Rightarrow> 'r request list option" where
  "forDescending func dx beginX v =
     (if v \<ge> beginX then
        Option.bind (forDescending func dx beginX (v - dx))
          (\<lambda>rest. Some (Evaluate (fn_id func) (fn_mode func) (fn_root func) v ''unshift'' # rest))
      else Some [])"

text \<open>
  \<open>calculatePoints\<close> is declared \<open>async\<close> but awaits nothing, so its body runs to the end
  inside the call. The result is the list of requests it posts, in order.
\<close>

definition calculatePoints ::
  "'r Render \<Rightarrow> 'r Function \<Rightarrow> real \<Rightarrow> real \<Rightarrow> MovingDirection \<Rightarrow> 'r request list option" where
  "calculatePoints st func beginX endX direction =
     (let beginX' = (if fn_mode func = POLAR \<and> beginX < 0 then 0 else beginX) in
      if fn_mode func = POLAR \<and> endX < 0 then Some []
      else
        let dx = delta * spacing st in
        if direction = LEFT then forAscending func dx endX beginX'
        else forDescending func dx beginX' endX)"

text \<open>
  A loop over the function list whose body posts requests; it stops for good when the
  body does not return.
\<close>

fun forEachFunction ::
  "('r Function \<Rightarrow> 'r request list option) \<Rightarrow> 'r Function list \<Rightarrow> 'r request list option" where
  "forEachFunction body [] = Some []"
| "forEachFunction body (func # funcs) =
     Option.bind (body func)
       (\<lambda>ms. Option.bind (forEachFunction body funcs) (\<lambda>rest. Some (ms @ rest)))"

subsection \<open>Pan and zoom\<close>

definition moveFunctionImage :: "MovingDirection \<Rightarrow> 'r Render \<Rightarrow> failure + 'r Render" where
  "moveFunctionImage direction st =
     (if length (displayedPoints st) = 0 then Inr st
      else if scale st = 0 then Inl NonFinite
      else
        let unitPx = scale st;
            oldBegin = fst (cameraPosition st);
            newBegin = - pt_x (center st) / unitPx;
            oldEnd = snd (cameraPosition st);
            newEnd = (canvas_width st - pt_x (center st)) / unitPx;
            beginX = (if direction = LEFT then oldEnd else newBegin);
            endX = (if direction = LEFT then newEnd else oldBegin)
        in case forEachFunction (\<lambda>func. calculatePoints st func beginX endX direction)
                  (functionList st) of
             None \<Rightarrow> Inl NoReturn
           | Some ms \<Rightarrow>
               Inr (st\<lparr>posted := posted st @ ms, cameraPosition := (newBegin, newEnd)\<rparr>))"

definition zoomFunctionImage :: "ZoomDirection \<Rightarrow> 'r Render \<Rightarrow> failure + 'r Render" where
  "zoomFunctionImage direction st =
     (if length (displayedPoints st) = 0 then Inr st
      else if scale st = 0 then Inl NonFinite
      else
        let unitPx = scale st;
            oldBegin = fst (cameraPosition st);
            newBegin = - pt_x (center st) / unitPx;
            oldEnd = snd (cameraPosition st);
            newEnd = (canvas_width st - pt_x (center st)) / unitPx
        in
          if direction = ZOOM_IN then
            (case forEachFunction (\<lambda>func. calculatePoints st func newBegin newEnd LEFT)
                    (functionList st) of
               None \<Rightarrow> Inl NoReturn
             | Some ms \<Rightarrow>
                 Inr (st\<lparr>displayedPoints := [], posted := posted st @ ms,
                        cameraPosition := (newBegin, newEnd)\<rparr>))
          else
            (case forEachFunction
                    (\<lambda>func. Option.bind (calculatePoints st func newBegin oldBegin RIGHT)
                       (\<lambda>ms1. Option.bind (calculatePoints st func oldEnd newEnd LEFT)
                          (\<lambda>ms2. Some (ms1 @ ms2))))
                    (functionList st) of
               None \<Rightarrow> Inl NoReturn
             | Some ms \<Rightarrow>
                 Inr (st\<lparr>posted := posted st @ ms, cameraPosition := (newBegin, newEnd)\<rparr>)))"

text \<open>
  \<open>getLast\<close> of an empty list is \<open>undefined\<close>; the call of \<open>calculatePoints\<close> then fails on
  \<open>func.mode\<close>, inside an \<open>async\<close> function: the promise is rejected, nobody awaits it, and
  \<open>drawCompleteFunction\<close> returns with nothing posted.
\<close>

definition drawCompleteFunction :: "'r Render \<Rightarrow> failure + 'r Render" where
  "drawCompleteFunction st =
     (case functionList st of
        [] \<Rightarrow> Inr st
      | _ # _ \<Rightarrow>
          if scale st = 0 then Inl NonFinite
          else
            (let func = last (functionList st);
                 unitPx = scale st;
                 beginX = - pt_x (center st) / unitPx;
                 endX = (canvas_width st - pt_x (center st)) / unitPx
             in (case calculatePoints st func beginX endX LEFT of
                   None \<Rightarrow> Inl NoReturn
                 | Some ms \<Rightarrow> Inr (st\<lparr>posted := posted st @ ms\<rparr>))))"

definition fullyRefreshFunctions :: "'r Render \<Rightarrow> failure + 'r Render" where
  "fullyRefreshFunctions st =
     (if scale st = 0 then Inl NonFinite
      else
        let unitPx = scale st;
            beginX = - pt_x (center st) / unitPx;
            endX = (canvas_width st - pt_x (center st)) / unitPx
        in case forEachFunction (\<lambda>func. calculatePoints st func beginX endX LEFT)
                  (functionList st) of
             None \<Rightarrow> Inl NoReturn
           | Some ms \<Rightarrow> Inr (st\<lparr>displayedPoints := [], posted := posted st @ ms\<rparr>))"

subsection \<open>Messages of the calculation worker\<close>

text \<open>
  Modelled from the spec: \<open>List.get\<close> and \<open>List.set\<close> (\<open>@/utils/List\<close>) are an indexed read
  and write of a sequence; a read outside the sequence gives \<open>undefined\<close>, here \<open>None\<close>.
  \<open>RootToken.create\<close> (\<open>@/compiler/token/RootToken\<close>) rebuilds the token tree from the
  copy in the message; the tree is opaque here.
\<close>

definition List_get :: "'a list \<Rightarrow> int \<Rightarrow> 'a option" where
  "List_get xs i = (if 0 \<le> i \<and> i < int (length xs) then Some (xs ! nat i) else None)"

definition List_set :: "'a list \<Rightarrow> int \<Rightarrow> 'a \<Rightarrow> 'a list" where
  "List_set xs i v = xs[nat i := v]"

definition RootToken_create :: "'r \<Rightarrow> 'r" where
  "RootToken_create r = r"

definition responsePoint :: "'r response \<Rightarrow> Point" where
  "responsePoint res =
     (if res_mode res = NORMAL then createPoint (res_x res) (res_y res)
      else createPoint (res_y res * cos (res_x res)) (res_y res * sin (res_x res)))"

definition handleCalculatingWorkerMessaging :: "'r response \<Rightarrow> 'r Render \<Rightarrow> failure + 'r Render" where
  "handleCalculatingWorkerMessaging res st =
     (if res_type res = ''compile'' then
        drawCompleteFunction
          (st\<lparr>functionList := functionList st @
                [\<lparr>fn_id = res_id res, fn_mode = res_mode res,
                  fn_root = RootToken_create (res_root res)\<rparr>]\<rparr>)
      else if res_type res = ''compile-and-set'' then
        (case List_get (functionList st) (res_index res) of
           None \<Rightarrow> Inl TypeError
         | Some oldFunction \<Rightarrow>
             fullyRefreshFunctions
               (st\<lparr>functionList := List_set (functionList st) (res_index res)
                     \<lparr>fn_id = fn_id oldFunction, fn_mode = res_mode res,
                       fn_root = RootToken_create (res_root res)\<rparr>\<rparr>))
      else if res_type res = ''evaluate'' then
        (if res_operate res = ''add'' then
           Inr (st\<lparr>displayedPoints := displayedPoints st @ [responsePoint res]\<rparr>)
         else if res_operate res = ''unshift'' then
           Inr (st\<lparr>displayedPoints := responsePoint res # displayedPoints st\<rparr>)
         else Inr st)
      else Inr st)"

subsection \<open>Event handlers\<close>

text \<open>
  Modelled from the spec: \<open>pointToCoordinates\<close> (\<open>@/renderer/Graphics\<close>) converts a
  pixel-space point to coordinate space. The camera has the pixel \<open>center\<close> as origin and
  \<open>scale\<close> pixels per unit, the visible range of the canvas \<open>[0, canvasWidth]\<close> is
  \<open>[-center.x/scale, (canvasWidth - center.x)/scale]\<close>, and \<open>handleWheel\<close> moves \<open>center.y\<close>
  against the coordinate difference: the vertical axis points up.
\<close>

definition pointToCoordinates :: "'r Render \<Rightarrow> Point \<Rightarrow> Point option" where
  "pointToCoordinates st p =
     (if scale st = 0 then None
      else Some (createPoint ((pt_x p - pt_x (center st)) / scale st)
                   (- (pt_y p - pt_y (center st)) / scale st)))"

definition refreshMousePoint :: "DOMRect \<Rightarrow> real \<Rightarrow> real \<Rightarrow> 'r Render \<Rightarrow> 'r Render" where
  "refreshMousePoint rect cx cy st =
     st\<lparr>mousePoint := createPoint (cx - rect_left rect) (cy - rect_top rect)\<rparr>"

definition handleMouseDown :: "DOMRect \<Rightarrow> real \<Rightarrow> real \<Rightarrow> 'r Render \<Rightarrow> 'r Render" where
  "handleMouseDown rect cx cy st =
     (let st1 = refreshMousePoint rect (cx * ratio st) (cy * ratio st) (st\<lparr>mouseDown := True\<rparr>)
      in st1\<lparr>mouseDX := pt_x (mousePoint st1) - pt_x (center st1),
             mouseDY := pt_y (mousePoint st1) - pt_y (center st1)\<rparr>)"

definition handleMouseMove ::
  "DOMRect \<Rightarrow> real \<Rightarrow> real \<Rightarrow> MovingDirection \<Rightarrow> 'r Render \<Rightarrow> failure + 'r Render" where
  "handleMouseMove rect cx cy direction st =
     (let st1 = refreshMousePoint rect (cx * ratio st) (cy * ratio st) st in
      if \<not> mouseDown st1 then Inr st1
      else
        moveFunctionImage direction
          (st1\<lparr>center := \<lparr>pt_x = pt_x (mousePoint st1) - mouseDX st1,
                           pt_y = pt_y (mousePoint st1) - mouseDY st1\<rparr>\<rparr>))"

definition stopMoving :: "'r Render \<Rightarrow> 'r Render" where
  "stopMoving st = st\<lparr>mouseDown := False, mouseDX := 0, mouseDY := 0\<rparr>"

definition handleMouseUp :: "'r Render \<Rightarrow> 'r Render" where
  "handleMouseUp st = (stopMoving st)\<lparr>zoomingScale := None, lastZoomingSize := None\<rparr>"

definition handleWheel :: "real \<Rightarrow> 'r Render \<Rightarrow> failure + 'r Render" where
  "handleWheel dy st =
     (case pointToCoordinates st (mousePoint st) of
        None \<Rightarrow> Inl NonFinite
      | Some mouseOriginPoint \<Rightarrow>
          if spacing st = 0 then Inl NonFinite
          else
            (let st1 = scalingAdapt
                         (st\<lparr>scale := (if dy > 0 then scale st - 7 / spacing st
                                        else scale st + 7 / spacing st)\<rparr>)
             in (case zoomFunctionImage (if dy > 0 then ZOOM_OUT else ZOOM_IN) st1 of
                   Inl e \<Rightarrow> Inl e
                 | Inr st2 \<Rightarrow>
                     (case pointToCoordinates st2 (mousePoint st2) of
                        None \<Rightarrow> Inl NonFinite
                      | Some mouseCurrentPoint \<Rightarrow>
                          let centerDx = pt_x mouseCurrentPoint - pt_x mouseOriginPoint;
                              centerDy = pt_y mouseCurrentPoint - pt_y mouseOriginPoint
                          in Inr (st2\<lparr>center :=
                                    \<lparr>pt_x = pt_x (center st2) + centerDx * scale st2,
                                     pt_y = pt_y (center st2) - centerDy * scale st2\<rparr>\<rparr>)))))"

text \<open>\<open>!v\<close> for a \<open>number | null\<close>: \<open>null\<close> and \<open>0\<close> are falsy.\<close>

definition falsy :: "real option \<Rightarrow> bool" where
  "falsy v = (case v of None \<Rightarrow> True | Some r \<Rightarrow> r = 0)"

definition handleTouchZoom ::
  "DOMRect \<Rightarrow> real \<Rightarrow> real \<Rightarrow> real \<Rightarrow> real \<Rightarrow> 'r Render \<Rightarrow> failure + 'r Render" where
  "handleTouchZoom rect cxA cyA cxB cyB st =
     (let screenA = createPoint (cxA * ratio st - rect_left rect) (cyA * ratio st - rect_top rect);
          screenB = createPoint (cxB * ratio st - rect_left rect) (cyB * ratio st - rect_top rect);
          zoomingSize = sqrt ((pt_x screenA - pt_x screenB)\<^sup>2 + (pt_y screenA - pt_y screenB)\<^sup>2);
          st1 = (if falsy (lastZoomingSize st) then st\<lparr>lastZoomingSize := Some zoomingSize\<rparr>
                 else st)
      in case (if falsy (zoomingScale st1) then None else zoomingScale st1) of
           None \<Rightarrow>
             if scale st1 = 0 then Inl NonFinite
             else Inr (st1\<lparr>zoomingScale := Some (zoomingSize / scale st1)\<rparr>)
         | Some zs \<Rightarrow>
             (let st2 = scalingAdapt (st1\<lparr>scale := zoomingSize / zs\<rparr>);
                  direction =
                    (case lastZoomingSize st2 of
                       None \<Rightarrow> ZOOM_IN
                     | Some l \<Rightarrow> if l \<noteq> 0 \<and> l > zoomingSize then ZOOM_OUT else ZOOM_IN)
              in (case zoomFunctionImage direction st2 of
                    Inl e \<Rightarrow> Inl e
                  | Inr st3 \<Rightarrow> Inr (st3\<lparr>lastZoomingSize := Some zoomingSize\<rparr>))))"

subsection \<open>Registering and editing functions\<close>

definition registerFunction ::
  "string \<Rightarrow> nat \<Rightarrow> FunctionInputtingType \<Rightarrow> 'r Render \<Rightarrow> 'r Render" where
  "registerFunction rawText i m st = st\<lparr>posted := posted st @ [Compile rawText i m]\<rparr>"

definition editFunction ::
  "int \<Rightarrow> string \<Rightarrow> FunctionInputtingType \<Rightarrow> 'r Render \<Rightarrow> 'r Render" where
  "editFunction i rawText m st = st\<lparr>posted := posted st @ [CompileAndSet i rawText m]\<rparr>"

subsection \<open>The camera invariant\<close>

definition visibleRange :: "'r Render \<Rightarrow> real \<times> real" where
  "visibleRange st =
     (- pt_x (center st) / scale st, (canvas_width st - pt_x (center st)) / scale st)"

subsection \<open>The samples of a range, in closed form\<close>

text \<open>
  What the claims call sampling a range \<open>[lo, hi]\<close> with step \<open>dx\<close>: the points \<open>lo\<close>,
  \<open>lo + dx\<close>, \<open>lo + 2 dx\<close>, ... up to \<open>hi\<close>, or \<open>hi\<close>, \<open>hi - dx\<close>, ... down to \<open>lo\<close>; there
  are \<open>\<lfloor>(hi - lo) / dx\<rfloor> + 1\<close> of them, none when the range is empty. These definitions are
  not taken from the source: the loops above are proved to post these lists.
\<close>

definition sampleCount :: "real \<Rightarrow> real \<Rightarrow> real \<Rightarrow> nat" where
  "sampleCount dx lo hi = (if hi < lo then 0 else nat (\<lfloor>(hi - lo) / dx\<rfloor> + 1))"

definition ascendingRequests :: "'r Function \<Rightarrow> real \<Rightarrow> real \<Rightarrow> real \<Rightarrow> 'r request list" where
  "ascendingRequests func dx endX v =
     map (\<lambda>k. Evaluate (fn_id func) (fn_mode func) (fn_root func) (v + real k * dx) ''add'')
       [0..<sampleCount dx v endX]"

definition descendingRequests :: "'r Function \<Rightarrow> real \<Rightarrow> real \<Rightarrow> real \<Rightarrow> 'r request list" where
  "descendingRequests func dx beginX v =
     map (\<lambda>k. Evaluate (fn_id func) (fn_mode func) (fn_root func) (v - real k * dx) ''unshift'')
       [0..<sampleCount dx beginX v]"

text \<open>
  The requests for one function over \<open>[beginX, endX]\<close>: ascending and appended for
  \<open>LEFT\<close>, descending and prepended otherwise; for a polar function the range is cut at 0.
\<close>

definition requestsOver ::
  "'r Render \<Rightarrow> 'r Function \<Rightarrow> real \<Rightarrow> real \<Rightarrow> MovingDirection \<Rightarrow> 'r request list" where
  "requestsOver st func beginX endX direction =
     (if fn_mode func = POLAR \<and> endX < 0 then []
      else if direction = LEFT then
        ascendingRequests func (delta * spacing st) endX
          (if fn_mode func = POLAR then max 0 beginX else beginX)
      else
        descendingRequests func (delta * spacing st)
          (if fn_mode func = POLAR then max 0 beginX else beginX) endX)"

subsection \<open>A concrete viewport\<close>

text \<open>
  An 800 by 600 canvas with the centre in the middle, 100 pixels per unit and grid unit 1,
  nothing registered and nothing sampled. The concrete states below are updates of it:
  with grid unit 100 the sampling step \<open>delta * spacing\<close> is 1, so that a range of a few
  units has a few samples. The token trees of the two functions are the numbers 7 and 8.
\<close>

definition viewport0 :: "nat Render" where
  "viewport0 =
     \<lparr>canvas_width = 800, canvas_height = 600, ratio = 1,
      center = \<lparr>pt_x = 400, pt_y = 300\<rparr>, scale = 100, spacing = 1,
      mousePoint = \<lparr>pt_x = 0, pt_y = 0\<rparr>, mouseDown = False, mouseDX = 0, mouseDY = 0,
      cameraPosition = (-4, 4), zoomingScale = None, lastZoomingSize = None,
      functionList = [], displayedPoints = [], posted = []\<rparr>"

definition square0 :: "nat Function" where
  "square0 = \<lparr>fn_id = 0, fn_mode = NORMAL, fn_root = 7\<rparr>"

definition spiral0 :: "nat Function" where
  "spiral0 = \<lparr>fn_id = 1, fn_mode = POLAR, fn_root = 8\<rparr>"

definition panned0 :: "nat Render" where
  "panned0 = viewport0\<lparr>spacing := 100, center := createPoint 300 300, functionList := [square0]\<rparr>"

definition shifted0 :: "nat Render" where
  "shifted0 = viewport0\<lparr>scale := 400, spacing := 100, center := createPoint 0 300,
                        cameraPosition := (-1, 1), functionList := [square0],
                        displayedPoints := [createPoint 1 1]\<rparr>"

definition zoomed0 :: "nat Render" where
  "zoomed0 = viewport0\<lparr>scale := 400, spacing := 100, functionList := [square0]\<rparr>"

definition plotted0 :: "nat Render" where
  "plotted0 = viewport0\<lparr>scale := 400, spacing := 100, functionList := [square0, spiral0],
                        displayedPoints := [createPoint 0 0, createPoint 1 1]\<rparr>"

definition origin0 :: DOMRect where
  "origin0 = \<lparr>rect_left = 0, rect_top = 0\<rparr>"

definition dragging0 :: "nat Render" where
  "dragging0 = viewport0\<lparr>mouseDown := True, functionList := [square0]\<rparr>"

definition pinching0 :: "nat Render" where
  "pinching0 = viewport0\<lparr>zoomingScale := Some 1, lastZoomingSize := Some 100,
                         displayedPoints := [createPoint 0 0]\<rparr>"

definition hovering0 :: "nat Render" where
  "hovering0 = viewport0\<lparr>mousePoint := createPoint 500 200, functionList := [square0],
                         displayedPoints := [createPoint 0 0]\<rparr>"

definition pinched0 :: "nat Render" where
  "pinched0 = viewport0\<lparr>zoomingScale := Some 2, lastZoomingSize := Some 200\<rparr>"

definition tiny0 :: "nat Render" where
  "tiny0 = pinched0\<lparr>lastZoomingSize := Some 7, scale := 7 / 2, spacing := 2\<rparr>"

text \<open>
  A session on the empty canvas: the mouse is pressed at pixel 700 and dragged to pixel
  100, then released; the compile response of a first function and one of its evaluate
  responses arrive; the mouse is pressed again, or a pinch begins with the touch points
  200 pixels apart.
\<close>

definition compile0 :: "nat response" where
  "compile0 = \<lparr>res_type = ''compile'', res_id = 0, res_index = 0, res_mode = NORMAL,
               res_root = 7, res_x = 0, res_y = 0, res_operate = ''''\<rparr>"

definition sample0 :: "nat response" where
  "sample0 = \<lparr>res_type = ''evaluate'', res_id = 0, res_index = 0, res_mode = NORMAL,
              res_root = 7, res_x = 2, res_y = 4, res_operate = ''add''\<rparr>"

definition grabbed0 :: "nat Render" where
  "grabbed0 = viewport0\<lparr>mousePoint := createPoint 700 300, mouseDown := True, mouseDX := 300\<rparr>"

definition released0 :: "nat Render" where
  "released0 = viewport0\<lparr>center := createPoint (-200) 300, mousePoint := createPoint 100 300\<rparr>"

definition stale0 :: "nat Render" where
  "stale0 = released0\<lparr>functionList := [square0], displayedPoints := [createPoint 2 4],
                       posted := requestsOver viewport0 square0 2 10 LEFT\<rparr>"

definition regrabbed0 :: "nat Render" where
  "regrabbed0 = stale0\<lparr>mousePoint := createPoint 400 300, mouseDown := True, mouseDX := 600\<rparr>"

definition pinch_begun0 :: "nat Render" where
  "pinch_begun0 = stale0\<lparr>zoomingScale := Some 2, lastZoomingSize := Some 200\<rparr>"

definition pinch_out0 :: "nat Render" where
  "pinch_out0 = pinch_begun0\<lparr>scale := 50, spacing := 2\<rparr>"

text \<open>
  States with one sample in the point stream, for a pan with the mouse down, a pan to the
  left of a polar function, a wheel step and its result, and a zoom of a polar function.
\<close>

definition panning0 :: "nat Render" where
  "panning0 = viewport0\<lparr>spacing := 100, mouseDown := True, mouseDX := 100,
                        functionList := [square0], displayedPoints := [createPoint 0 0]\<rparr>"

definition polar_panned0 :: "nat Render" where
  "polar_panned0 = viewport0\<lparr>center := createPoint 1100 300, cameraPosition := (-12, -4),
                             functionList := [spiral0], displayedPoints := [createPoint 0 0]\<rparr>"

definition wheeling0 :: "nat Render" where
  "wheeling0 = viewport0\<lparr>functionList := [square0], displayedPoints := [createPoint 0 0]\<rparr>"

definition wheeled0 :: "nat Render" where
  "wheeled0 = wheeling0\<lparr>scale := 107, displayedPoints := [],
                        posted := Evaluate 0 NORMAL 7 (- (400 / 107)) ''add'' #
                          requestsOver wheeling0 square0 (- (400 / 107) + 1 / 100) (400 / 107) LEFT,
                        cameraPosition := (- (400 / 107), 400 / 107),
                        center := createPoint 428 321\<rparr>"

definition polar_zoomed0 :: "nat Render" where
  "polar_zoomed0 = viewport0\<lparr>functionList := [spiral0], displayedPoints := [createPoint 0 0]\<rparr>"

text \<open>
  A compile-and-set response for the function at position 0, and a state with two
  functions in which a pinch has begun with the touch points 200 pixels apart.
\<close>

definition edit0 :: "nat response" where
  "edit0 = \<lparr>res_type = ''compile-and-set'', res_id = 5, res_index = 0, res_mode = NORMAL,
            res_root = 9, res_x = 0, res_y = 0, res_operate = ''''\<rparr>"

definition squeezing0 :: "nat Render" where
  "squeezing0 = viewport0\<lparr>zoomingScale := Some 2, lastZoomingSize := Some 200,
                          functionList := [square0, spiral0]\<rparr>"

section \<open>Grid-spacing adaptation\<close>

lemma scalingAdapt_scale: "scale (scalingAdapt st) = scale st"
  by (simp add: scalingAdapt_def)

lemma scalingAdapt_spacing_pos: "0 < spacing st \<Longrightarrow> 0 < spacing (scalingAdapt st)"
  by (simp add: scalingAdapt_def)

lemma scalingAdapt_stable:
  "66 < scale st * spacing st \<Longrightarrow> scale st * spacing st < 138 \<Longrightarrow> scalingAdapt st = st"
  by (simp add: scalingAdapt_def)

lemma funpow_fixed: "f a = a \<Longrightarrow> (f ^^ n) a = a"
  by (induction n) simp_all

text \<open>
  C4: one call of \<open>scalingAdapt\<close>: when \<open>scale * spacing \<le> 66\<close> the spacing becomes 5 if it
  was 2 and is doubled otherwise; when \<open>scale * spacing \<ge> 138\<close> it becomes 2 if it was 5 and
  is halved otherwise; in every other case it stays. Nothing but the spacing changes.
\<close>

theorem scalingAdapt_cases:
  "(scale st * spacing st \<le> 66 \<longrightarrow>
      spacing (scalingAdapt st) = (if spacing st = 2 then 5 else spacing st * 2)) \<and>
   (scale st * spacing st \<ge> 138 \<longrightarrow>
      spacing (scalingAdapt st) = (if spacing st = 5 then 2 else spacing st / 2)) \<and>
   (\<not> scale st * spacing st \<le> 66 \<and> \<not> scale st * spacing st \<ge> 138 \<longrightarrow>
      spacing (scalingAdapt st) = spacing st) \<and>
   scalingAdapt st = st\<lparr>spacing := spacing (scalingAdapt st)\<rparr>"
  by (simp add: scalingAdapt_def)

theorem scalingAdapt_cases_witness:
  "(scale (viewport0\<lparr>scale := 30, spacing := 2\<rparr>) * spacing (viewport0\<lparr>scale := 30, spacing := 2\<rparr>) \<le> 66
     \<and> spacing (scalingAdapt (viewport0\<lparr>scale := 30, spacing := 2\<rparr>)) = 5) \<and>
   (scale (viewport0\<lparr>scale := 30\<rparr>) * spacing (viewport0\<lparr>scale := 30\<rparr>) \<le> 66
     \<and> spacing (scalingAdapt (viewport0\<lparr>scale := 30\<rparr>)) = 2) \<and>
   (scale (viewport0\<lparr>scale := 30, spacing := 5\<rparr>) * spacing (viewport0\<lparr>scale := 30, spacing := 5\<rparr>) \<ge> 138
     \<and> spacing (scalingAdapt (viewport0\<lparr>scale := 30, spacing := 5\<rparr>)) = 2) \<and>
   (scale (viewport0\<lparr>scale := 140\<rparr>) * spacing (viewport0\<lparr>scale := 140\<rparr>) \<ge> 138
     \<and> spacing (scalingAdapt (viewport0\<lparr>scale := 140\<rparr>)) = 1 / 2) \<and>
   (\<not> scale viewport0 * spacing viewport0 \<le> 66 \<and> \<not> scale viewport0 * spacing viewport0 \<ge> 138
     \<and> spacing (scalingAdapt viewport0) = 1)"
  using scalingAdapt_cases [of "viewport0\<lparr>scale := 30, spacing := 2\<rparr>"]
    scalingAdapt_cases [of "viewport0\<lparr>scale := 30\<rparr>"]
    scalingAdapt_cases [of "viewport0\<lparr>scale := 30, spacing := 5\<rparr>"]
    scalingAdapt_cases [of "viewport0\<lparr>scale := 140\<rparr>"]
    scalingAdapt_cases [of viewport0]
  by (simp add: viewport0_def)

text \<open>
  C5, as amended: when \<open>scale * spacing\<close> is exactly 66 and the spacing is not 2, the first
  call of \<open>scalingAdapt\<close> doubles the spacing and every further call leaves the state as it
  is. (The product is then 132, strictly between the two thresholds.)
\<close>

theorem scalingAdapt_boundary_settles:
  assumes "scale st * spacing st = 66" and "spacing st \<noteq> 2"
  shows "(scalingAdapt ^^ Suc n) st = st\<lparr>spacing := spacing st * 2\<rparr>"
proof -
  have first: "scalingAdapt st = st\<lparr>spacing := spacing st * 2\<rparr>"
    using assms by (simp add: scalingAdapt_def)
  have "scale st * (spacing st * 2) = 132"
    using assms(1) by simp
  then have "scalingAdapt (st\<lparr>spacing := spacing st * 2\<rparr>) = st\<lparr>spacing := spacing st * 2\<rparr>"
    by (intro scalingAdapt_stable) simp_all
  then have "(scalingAdapt ^^ n) (st\<lparr>spacing := spacing st * 2\<rparr>) = st\<lparr>spacing := spacing st * 2\<rparr>"
    by (rule funpow_fixed)
  then show ?thesis
    by (simp add: funpow_swap1 first)
qed

theorem scalingAdapt_boundary_settles_witness:
  "scale (viewport0\<lparr>scale := 66\<rparr>) * spacing (viewport0\<lparr>scale := 66\<rparr>) = 66 \<and>
   spacing (viewport0\<lparr>scale := 66\<rparr>) \<noteq> 2 \<and>
   (scalingAdapt ^^ Suc 3) (viewport0\<lparr>scale := 66\<rparr>) = viewport0\<lparr>scale := 66, spacing := 2\<rparr>"
  using scalingAdapt_boundary_settles [of "viewport0\<lparr>scale := 66\<rparr>" 3]
  by (simp add: viewport0_def)

text \<open>
  C5 as stated fails at scale 33 and spacing 2: the product is 66, the first call sets the
  spacing to 5 (product 165, at least 138), the second sets it back to 2, the third to 5
  again.
\<close>

theorem scalingAdapt_boundary_oscillates:
  "scale (viewport0\<lparr>scale := 33, spacing := 2\<rparr>) * spacing (viewport0\<lparr>scale := 33, spacing := 2\<rparr>) = 66 \<and>
   spacing (scalingAdapt (viewport0\<lparr>scale := 33, spacing := 2\<rparr>)) = 5 \<and>
   spacing (scalingAdapt (scalingAdapt (viewport0\<lparr>scale := 33, spacing := 2\<rparr>))) = 2 \<and>
   spacing (scalingAdapt (scalingAdapt (scalingAdapt (viewport0\<lparr>scale := 33, spacing := 2\<rparr>)))) = 5"
  by (simp add: scalingAdapt_def viewport0_def)

section \<open>Messages of an unknown type\<close>

text \<open>
  C8: a message of the calculation worker whose type is none of \<open>compile\<close>,
  \<open>compile-and-set\<close> and \<open>evaluate\<close> is ignored: the handler returns, and the state (the
  function list and the point stream with it) is the one it was given.
\<close>

theorem unknown_message_ignored:
  assumes "res_type res \<noteq> ''compile''" and "res_type res \<noteq> ''compile-and-set''"
    and "res_type res \<noteq> ''evaluate''"
  shows "handleCalculatingWorkerMessaging res st = Inr st"
  using assms by (simp add: handleCalculatingWorkerMessaging_def)

theorem unknown_message_ignored_witness:
  "''fps'' \<noteq> ''compile'' \<and> ''fps'' \<noteq> ''compile-and-set'' \<and> ''fps'' \<noteq> ''evaluate'' \<and>
   handleCalculatingWorkerMessaging
     \<lparr>res_type = ''fps'', res_id = 0, res_index = 0, res_mode = NORMAL, res_root = 7,
      res_x = 0, res_y = 0, res_operate = ''add''\<rparr>
     (viewport0\<lparr>functionList := [square0], displayedPoints := [createPoint 1 1]\<rparr>)
   = Inr (viewport0\<lparr>functionList := [square0], displayedPoints := [createPoint 1 1]\<rparr>)"
  using unknown_message_ignored
    [of "\<lparr>res_type = ''fps'', res_id = 0, res_index = 0, res_mode = NORMAL, res_root = 7,
          res_x = 0, res_y = 0, res_operate = ''add''\<rparr>"
        "viewport0\<lparr>functionList := [square0], displayedPoints := [createPoint 1 1]\<rparr>"]
  by simp

section \<open>Pan and zoom on an empty point stream\<close>

text \<open>
  C10: with an empty point stream \<open>moveFunctionImage\<close> and \<open>zoomFunctionImage\<close> return at
  once, for either direction: the state is unchanged, so no request is posted for any
  registered function and \<open>cameraPosition\<close> keeps its value.
\<close>

theorem empty_stream_returns_at_once:
  assumes "displayedPoints st = []"
  shows "moveFunctionImage direction st = Inr st \<and> zoomFunctionImage zoom st = Inr st"
  using assms by (simp add: moveFunctionImage_def zoomFunctionImage_def)

theorem empty_stream_returns_at_once_witness:
  "displayedPoints (viewport0\<lparr>center := createPoint 300 300, functionList := [square0]\<rparr>) = [] \<and>
   moveFunctionImage LEFT (viewport0\<lparr>center := createPoint 300 300, functionList := [square0]\<rparr>)
     = Inr (viewport0\<lparr>center := createPoint 300 300, functionList := [square0]\<rparr>) \<and>
   zoomFunctionImage ZOOM_IN (viewport0\<lparr>center := createPoint 300 300, functionList := [square0]\<rparr>)
     = Inr (viewport0\<lparr>center := createPoint 300 300, functionList := [square0]\<rparr>)"
  using empty_stream_returns_at_once
    [of "viewport0\<lparr>center := createPoint 300 300, functionList := [square0]\<rparr>" LEFT ZOOM_IN]
  by (simp add: viewport0_def)

section \<open>What the sampling loops post\<close>

lemma sampleCount_0: "hi < lo \<Longrightarrow> sampleCount dx lo hi = 0"
  by (simp add: sampleCount_def)

lemma sampleCount_Suc_up:
  assumes "0 < dx" "lo \<le> hi"
  shows "sampleCount dx lo hi = Suc (sampleCount dx (lo + dx) hi)"
proof (cases "hi < lo + dx")
  case True
  with assms have "0 \<le> (hi - lo) / dx" "(hi - lo) / dx < 1" by simp_all
  then have "\<lfloor>(hi - lo) / dx\<rfloor> = 0" by linarith
  with True assms(2) show ?thesis by (simp add: sampleCount_def)
next
  case False
  have "(hi - (lo + dx)) / dx = (hi - lo) / dx - 1"
    using assms(1) by (simp add: field_simps)
  then have eq: "\<lfloor>(hi - (lo + dx)) / dx\<rfloor> = \<lfloor>(hi - lo) / dx\<rfloor> - 1"
    by (simp add: floor_diff_one)
  have "0 \<le> (hi - lo) / dx" using assms by simp
  then have nonneg: "0 \<le> \<lfloor>(hi - lo) / dx\<rfloor>" by simp
  have "nat (k + 1) = Suc (nat (k - 1 + 1))" if "0 \<le> k" for k :: int
    using that by simp
  from this [OF nonneg] have "nat (\<lfloor>(hi - lo) / dx\<rfloor> + 1) = Suc (nat (\<lfloor>(hi - (lo + dx)) / dx\<rfloor> + 1))"
    unfolding eq .
  with False assms(2) show ?thesis by (simp add: sampleCount_def)
qed

lemma sampleCount_Suc_down:
  assumes "0 < dx" "lo \<le> hi"
  shows "sampleCount dx lo hi = Suc (sampleCount dx lo (hi - dx))"
proof -
  have "sampleCount dx lo (hi - dx) = sampleCount dx (lo + dx) hi"
    by (simp add: sampleCount_def algebra_simps)
  then show ?thesis
    using sampleCount_Suc_up [OF assms] by simp
qed

lemma sample_in_range:
  assumes "0 < dx" "k < sampleCount dx lo hi"
  shows "real k * dx \<le> hi - lo"
proof -
  from assms(2) have le: "lo \<le> hi" and "k < nat (\<lfloor>(hi - lo) / dx\<rfloor> + 1)"
    by (simp_all add: sampleCount_def split: if_splits)
  then have "int k \<le> \<lfloor>(hi - lo) / dx\<rfloor>" by linarith
  then have "real_of_int (int k) \<le> (hi - lo) / dx" by (simp only: le_floor_iff)
  then have "real k \<le> (hi - lo) / dx" by simp
  then show ?thesis using assms(1) by (simp add: pos_le_divide_eq)
qed

lemma ascendingRequests_step:
  assumes "0 < dx" "v \<le> endX"
  shows "ascendingRequests func dx endX v =
           Evaluate (fn_id func) (fn_mode func) (fn_root func) v ''add'' #
           ascendingRequests func dx endX (v + dx)"
  by (simp del: upt_Suc
        add: ascendingRequests_def sampleCount_Suc_up [OF assms] map_upt_Suc algebra_simps)

lemma descendingRequests_step:
  assumes "0 < dx" "beginX \<le> v"
  shows "descendingRequests func dx beginX v =
           Evaluate (fn_id func) (fn_mode func) (fn_root func) v ''unshift'' #
           descendingRequests func dx beginX (v - dx)"
  by (simp del: upt_Suc
        add: descendingRequests_def sampleCount_Suc_down [OF assms] map_upt_Suc algebra_simps)

lemma forAscending_closed:
  assumes "0 < dx"
  shows "forAscending func dx endX v = Some (ascendingRequests func dx endX v)"
proof (induction n \<equiv> "sampleCount dx v endX" arbitrary: v)
  case 0
  have "endX < v"
  proof (rule ccontr)
    assume "\<not> endX < v"
    then have "v \<le> endX" by simp
    from sampleCount_Suc_up [OF assms this] 0 show False by simp
  qed
  then show ?case
    by (subst forAscending.simps) (simp add: ascendingRequests_def sampleCount_0)
next
  case (Suc n)
  have le: "v \<le> endX"
  proof (rule ccontr)
    assume "\<not> v \<le> endX"
    then have "endX < v" by simp
    from sampleCount_0 [OF this] Suc(2) show False by simp
  qed
  have "sampleCount dx v endX = Suc (sampleCount dx (v + dx) endX)"
    by (rule sampleCount_Suc_up [OF assms le])
  with Suc(2) have "n = sampleCount dx (v + dx) endX" by simp
  from Suc(1) [OF this]
  have rec: "forAscending func dx endX (v + dx) = Some (ascendingRequests func dx endX (v + dx))" .
  have "forAscending func dx endX v =
          Some (Evaluate (fn_id func) (fn_mode func) (fn_root func) v ''add'' #
                ascendingRequests func dx endX (v + dx))"
    using le by (subst forAscending.simps) (simp only: rec if_True bind.simps)
  then show ?case
    by (simp only: ascendingRequests_step [OF assms le])
qed

lemma forDescending_closed:
  assumes "0 < dx"
  shows "forDescending func dx beginX v = Some (descendingRequests func dx beginX v)"
proof (induction n \<equiv> "sampleCount dx beginX v" arbitrary: v)
  case 0
  have "v < beginX"
  proof (rule ccontr)
    assume "\<not> v < beginX"
    then have "beginX \<le> v" by simp
    from sampleCount_Suc_down [OF assms this] 0 show False by simp
  qed
  then show ?case
    by (subst forDescending.simps) (simp add: descendingRequests_def sampleCount_0)
next
  case (Suc n)
  have le: "beginX \<le> v"
  proof (rule ccontr)
    assume "\<not> beginX \<le> v"
    then have "v < beginX" by simp
    from sampleCount_0 [OF this] Suc(2) show False by simp
  qed
  have "sampleCount dx beginX v = Suc (sampleCount dx beginX (v - dx))"
    by (rule sampleCount_Suc_down [OF assms le])
  with Suc(2) have "n = sampleCount dx beginX (v - dx)" by simp
  from Suc(1) [OF this]
  have rec: "forDescending func dx beginX (v - dx) = Some (descendingRequests func dx beginX (v - dx))" .
  have "forDescending func dx beginX v =
          Some (Evaluate (fn_id func) (fn_mode func) (fn_root func) v ''unshift'' #
                descendingRequests func dx beginX (v - dx))"
    using le by (subst forDescending.simps) (simp only: rec if_True bind.simps)
  then show ?case
    by (simp only: descendingRequests_step [OF assms le])
qed

lemma forAscending_stuck:
  assumes "forAscending func dx endX v = Some ms" and "dx \<le> 0"
  shows "endX < v"
proof -
  have "dx \<le> 0 \<longrightarrow> endX < v"
  proof (rule forAscending.raw_induct
      [where P = "\<lambda>func dx endX v ms. dx \<le> 0 \<longrightarrow> endX < v", OF _ assms(1)])
    fix rec :: "'a Function \<Rightarrow> real \<Rightarrow> real \<Rightarrow> real \<Rightarrow> 'a request list option"
      and func :: "'a Function" and dx endX v :: real and ms :: "'a request list"
    assume IH: "\<And>func dx endX v ms. rec func dx endX v = Some ms \<Longrightarrow> dx \<le> 0 \<longrightarrow> endX < v"
      and step: "(if v \<le> endX then
                    Option.bind (rec func dx endX (v + dx))
                      (\<lambda>rest. Some (Evaluate (fn_id func) (fn_mode func) (fn_root func) v ''add'' # rest))
                  else Some []) = Some ms"
    show "dx \<le> 0 \<longrightarrow> endX < v"
    proof (intro impI, rule ccontr)
      assume dx: "dx \<le> 0" and "\<not> endX < v"
      then have le: "v \<le> endX" by simp
      with step obtain rest where "rec func dx endX (v + dx) = Some rest"
        by (auto simp: bind_eq_Some_conv)
      from IH [OF this] dx have "endX < v + dx" by simp
      with dx le show False by simp
    qed
  qed
  with assms(2) show ?thesis by simp
qed

lemma forDescending_stuck:
  assumes "forDescending func dx beginX v = Some ms" and "dx \<le> 0"
  shows "v < beginX"
proof -
  have "dx \<le> 0 \<longrightarrow> v < beginX"
  proof (rule forDescending.raw_induct
      [where P = "\<lambda>func dx beginX v ms. dx \<le> 0 \<longrightarrow> v < beginX", OF _ assms(1)])
    fix rec :: "'a Function \<Rightarrow> real \<Rightarrow> real \<Rightarrow> real \<Rightarrow> 'a request list option"
      and func :: "'a Function" and dx beginX v :: real and ms :: "'a request list"
    assume IH: "\<And>func dx beginX v ms. rec func dx beginX v = Some ms \<Longrightarrow> dx \<le> 0 \<longrightarrow> v < beginX"
      and step: "(if v \<ge> beginX then
                    Option.bind (rec func dx beginX (v - dx))
                      (\<lambda>rest. Some (Evaluate (fn_id func) (fn_mode func) (fn_root func) v ''unshift'' # rest))
                  else Some []) = Some ms"
    show "dx \<le> 0 \<longrightarrow> v < beginX"
    proof (intro impI, rule ccontr)
      assume dx: "dx \<le> 0" and "\<not> v < beginX"
      then have le: "beginX \<le> v" by simp
      with step obtain rest where "rec func dx beginX (v - dx) = Some rest"
        by (auto simp: bind_eq_Some_conv)
      from IH [OF this] dx have "v - dx < beginX" by simp
      with dx le show False by simp
    qed
  qed
  with assms(2) show ?thesis by simp
qed

lemma forAscending_Some:
  assumes "forAscending func dx endX v = Some ms"
  shows "ms = ascendingRequests func dx endX v"
proof (cases "0 < dx")
  case True
  with assms show ?thesis by (simp add: forAscending_closed)
next
  case False
  then have "dx \<le> 0" by simp
  from forAscending_stuck [OF assms this] have gt: "endX < v" .
  then have "forAscending func dx endX v = Some []"
    by (subst forAscending.simps) simp
  with assms gt show ?thesis
    by (simp add: ascendingRequests_def sampleCount_0)
qed

lemma forDescending_Some:
  assumes "forDescending func dx beginX v = Some ms"
  shows "ms = descendingRequests func dx beginX v"
proof (cases "0 < dx")
  case True
  with assms show ?thesis by (simp add: forDescending_closed)
next
  case False
  then have "dx \<le> 0" by simp
  from forDescending_stuck [OF assms this] have gt: "v < beginX" .
  then have "forDescending func dx beginX v = Some []"
    by (subst forDescending.simps) simp
  with assms gt show ?thesis
    by (simp add: descendingRequests_def sampleCount_0)
qed

lemma delta_spacing_pos: "0 < spacing st \<Longrightarrow> 0 < delta * spacing st"
  by (simp add: delta_def)

lemma calculatePoints_returns:
  assumes "0 < spacing st"
  shows "calculatePoints st func beginX endX direction =
           Some (requestsOver st func beginX endX direction)"
  using delta_spacing_pos [OF assms]
  by (auto simp: calculatePoints_def requestsOver_def Let_def forAscending_closed
        forDescending_closed max_def)

lemma calculatePoints_Some:
  assumes "calculatePoints st func beginX endX direction = Some ms"
  shows "ms = requestsOver st func beginX endX direction"
  using assms
  by (auto simp: calculatePoints_def requestsOver_def Let_def max_def
        split: if_splits dest: forAscending_Some forDescending_Some)

lemma ascendingRequests_member:
  assumes "0 < dx" "m \<in> set (ascendingRequests func dx endX v)"
  shows "\<exists>a. m = Evaluate (fn_id func) (fn_mode func) (fn_root func) a ''add'' \<and>
              v \<le> a \<and> a \<le> endX"
proof -
  from assms(2) obtain k where k: "k < sampleCount dx v endX"
    and m: "m = Evaluate (fn_id func) (fn_mode func) (fn_root func) (v + real k * dx) ''add''"
    by (auto simp: ascendingRequests_def)
  from sample_in_range [OF assms(1) k] have "v + real k * dx \<le> endX" by simp
  moreover have "v \<le> v + real k * dx" using assms(1) by simp
  ultimately show ?thesis using m by blast
qed

lemma descendingRequests_member:
  assumes "0 < dx" "m \<in> set (descendingRequests func dx beginX v)"
  shows "\<exists>a. m = Evaluate (fn_id func) (fn_mode func) (fn_root func) a ''unshift'' \<and>
              beginX \<le> a \<and> a \<le> v"
proof -
  from assms(2) obtain k where k: "k < sampleCount dx beginX v"
    and m: "m = Evaluate (fn_id func) (fn_mode func) (fn_root func) (v - real k * dx) ''unshift''"
    by (auto simp: descendingRequests_def)
  from sample_in_range [OF assms(1) k] have "beginX \<le> v - real k * dx" by simp
  moreover have "v - real k * dx \<le> v" using assms(1) by simp
  ultimately show ?thesis using m by blast
qed

lemma ascendingRequests_sorted:
  assumes "0 < dx"
  shows "sorted_wrt (<) (map req_x (ascendingRequests func dx endX v))"
proof -
  have "sorted_wrt (\<lambda>i j. v + real i * dx < v + real j * dx) [0..<sampleCount dx v endX]"
    using assms by (auto simp: sorted_wrt_iff_nth_less)
  then show ?thesis
    by (simp add: ascendingRequests_def sorted_wrt_map comp_def)
qed

lemma descendingRequests_sorted:
  assumes "0 < dx"
  shows "sorted_wrt (>) (map req_x (descendingRequests func dx beginX v))"
proof -
  have "sorted_wrt (\<lambda>i j. v - real i * dx > v - real j * dx) [0..<sampleCount dx beginX v]"
    using assms by (auto simp: sorted_wrt_iff_nth_less)
  then show ?thesis
    by (simp add: descendingRequests_def sorted_wrt_map comp_def)
qed

lemma requestsOver_member:
  assumes "0 < spacing st" "m \<in> set (requestsOver st func beginX endX direction)"
  shows "\<exists>a. m = Evaluate (fn_id func) (fn_mode func) (fn_root func) a
                    (if direction = LEFT then ''add'' else ''unshift'') \<and>
              beginX \<le> a \<and> a \<le> endX \<and> (fn_mode func = POLAR \<longrightarrow> 0 \<le> a)"
proof (cases "direction = LEFT")
  case True
  with assms(2) have "m \<in> set (ascendingRequests func (delta * spacing st) endX
      (if fn_mode func = POLAR then max 0 beginX else beginX))"
    by (simp add: requestsOver_def split: if_splits)
  from ascendingRequests_member [OF delta_spacing_pos [OF assms(1)] this] True
  show ?thesis by (auto split: if_splits)
next
  case False
  with assms(2) have "m \<in> set (descendingRequests func (delta * spacing st)
      (if fn_mode func = POLAR then max 0 beginX else beginX) endX)"
    by (simp add: requestsOver_def split: if_splits)
  from descendingRequests_member [OF delta_spacing_pos [OF assms(1)] this] False
  show ?thesis by (auto split: if_splits)
qed

lemma requestsOver_sorted:
  assumes "0 < spacing st"
  shows "sorted_wrt (if direction = LEFT then (<) else (>))
           (map req_x (requestsOver st func beginX endX direction))"
  by (simp add: requestsOver_def ascendingRequests_sorted [OF delta_spacing_pos [OF assms]]
        descendingRequests_sorted [OF delta_spacing_pos [OF assms]])

lemma forEachFunction_returns:
  assumes "\<And>func. func \<in> set funcs \<Longrightarrow> body func = Some (g func)"
  shows "forEachFunction body funcs = Some (concat (map g funcs))"
  using assms by (induction funcs) simp_all

section \<open>Polar functions are sampled from 0\<close>

lemma calculatePoints_member:
  assumes "calculatePoints st func beginX endX direction = Some ms" and "m \<in> set ms"
  shows "\<exists>a. m = Evaluate (fn_id func) (fn_mode func) (fn_root func) a
                    (if direction = LEFT then ''add'' else ''unshift'') \<and>
              beginX \<le> a \<and> a \<le> endX \<and> (fn_mode func = POLAR \<longrightarrow> 0 \<le> a)"
proof (cases "0 < spacing st")
  case True
  from calculatePoints_Some [OF assms(1)] assms(2)
  have "m \<in> set (requestsOver st func beginX endX direction)" by simp
  from requestsOver_member [OF True this] show ?thesis .
next
  case False
  then have dx: "delta * spacing st \<le> 0"
    by (simp add: delta_def mult_le_0_iff)
  have "ms = []"
  proof (cases "fn_mode func = POLAR \<and> endX < 0")
    case True
    with assms(1) show ?thesis by (simp add: calculatePoints_def Let_def)
  next
    case other: False
    show ?thesis
    proof (cases "direction = LEFT")
      case True
      with other assms(1) have run: "forAscending func (delta * spacing st) endX
          (if fn_mode func = POLAR \<and> beginX < 0 then 0 else beginX) = Some ms"
        by (auto simp: calculatePoints_def Let_def split: if_splits)
      from forAscending_stuck [OF run dx] forAscending_Some [OF run]
      show ?thesis by (simp add: ascendingRequests_def sampleCount_0)
    next
      case False
      with other assms(1) have run: "forDescending func (delta * spacing st)
          (if fn_mode func = POLAR \<and> beginX < 0 then 0 else beginX) endX = Some ms"
        by (auto simp: calculatePoints_def Let_def split: if_splits)
      from forDescending_stuck [OF run dx] forDescending_Some [OF run]
      show ?thesis by (simp add: descendingRequests_def sampleCount_0)
    qed
  qed
  with assms(2) show ?thesis by simp
qed

lemma upt_2: "[0..<2] = [0, Suc 0]"
  by (simp add: numeral_2_eq_2)

text \<open>
  C9: for a polar function \<open>calculatePoints\<close> posts no request with a negative
  independent variable. With \<open>endX < 0\<close> it returns without posting; whenever it returns,
  every request it has posted is an evaluate request of the function with \<open>0 \<le> x\<close> (and
  \<open>x\<close> in the range asked for); and with a positive grid spacing it does return, having
  sampled from \<open>max 0 beginX\<close>: a negative \<open>beginX\<close> is clamped to 0.
\<close>

theorem polar_requests_nonnegative:
  assumes "fn_mode func = POLAR"
  shows "(endX < 0 \<longrightarrow> calculatePoints st func beginX endX direction = Some []) \<and>
         (\<forall>ms. calculatePoints st func beginX endX direction = Some ms \<longrightarrow>
            (\<forall>m \<in> set ms. \<exists>a. m = Evaluate (fn_id func) POLAR (fn_root func) a
                                      (if direction = LEFT then ''add'' else ''unshift'') \<and>
                                0 \<le> a \<and> beginX \<le> a \<and> a \<le> endX)) \<and>
         (0 < spacing st \<longrightarrow>
            calculatePoints st func beginX endX direction =
              Some (if endX < 0 then []
                    else if direction = LEFT then
                      ascendingRequests func (delta * spacing st) endX (max 0 beginX)
                    else descendingRequests func (delta * spacing st) (max 0 beginX) endX))"
proof (intro conjI impI allI ballI)
  assume "endX < 0"
  with assms show "calculatePoints st func beginX endX direction = Some []"
    by (simp add: calculatePoints_def Let_def)
next
  fix ms m
  assume "calculatePoints st func beginX endX direction = Some ms" and "m \<in> set ms"
  from calculatePoints_member [OF this] assms
  show "\<exists>a. m = Evaluate (fn_id func) POLAR (fn_root func) a
                  (if direction = LEFT then ''add'' else ''unshift'') \<and>
             0 \<le> a \<and> beginX \<le> a \<and> a \<le> endX"
    by auto
next
  assume "0 < spacing st"
  from calculatePoints_returns [OF this] assms
  show "calculatePoints st func beginX endX direction =
          Some (if endX < 0 then []
                else if direction = LEFT then
                  ascendingRequests func (delta * spacing st) endX (max 0 beginX)
                else descendingRequests func (delta * spacing st) (max 0 beginX) endX)"
    by (simp add: requestsOver_def)
qed

theorem polar_requests_nonnegative_witness:
  "fn_mode spiral0 = POLAR \<and>
   calculatePoints (viewport0\<lparr>spacing := 100\<rparr>) spiral0 (-2) (-1) LEFT = Some [] \<and>
   calculatePoints (viewport0\<lparr>spacing := 100\<rparr>) spiral0 (-2) 1 LEFT =
     Some [Evaluate 1 POLAR 8 0 ''add'', Evaluate 1 POLAR 8 1 ''add''] \<and>
   calculatePoints (viewport0\<lparr>spacing := 100\<rparr>) spiral0 (-2) 1 RIGHT =
     Some [Evaluate 1 POLAR 8 1 ''unshift'', Evaluate 1 POLAR 8 0 ''unshift'']"
  using polar_requests_nonnegative [of spiral0 "-1" "viewport0\<lparr>spacing := 100\<rparr>" "-2" LEFT]
    polar_requests_nonnegative [of spiral0 1 "viewport0\<lparr>spacing := 100\<rparr>" "-2" LEFT]
    polar_requests_nonnegative [of spiral0 1 "viewport0\<lparr>spacing := 100\<rparr>" "-2" RIGHT]
  by (simp add: spiral0_def viewport0_def delta_def ascendingRequests_def
        descendingRequests_def sampleCount_def upt_2)

section \<open>What pan, zoom and refresh post\<close>

lemma forEach_calculatePoints:
  assumes "0 < spacing st"
  shows "forEachFunction (\<lambda>func. calculatePoints st func beginX endX direction) funcs =
           Some (concat (map (\<lambda>func. requestsOver st func beginX endX direction) funcs))"
  by (rule forEachFunction_returns) (simp add: calculatePoints_returns [OF assms])

lemma forEach_calculatePoints_twice:
  assumes "0 < spacing st"
  shows "forEachFunction
           (\<lambda>func. Option.bind (calculatePoints st func b1 e1 d1)
              (\<lambda>ms1. Option.bind (calculatePoints st func b2 e2 d2) (\<lambda>ms2. Some (ms1 @ ms2))))
           funcs =
         Some (concat (map (\<lambda>func. requestsOver st func b1 e1 d1 @ requestsOver st func b2 e2 d2)
                 funcs))"
  by (rule forEachFunction_returns) (simp add: calculatePoints_returns [OF assms])

lemma moveFunctionImage_returns:
  assumes "displayedPoints st \<noteq> []" and "scale st \<noteq> 0" and "0 < spacing st"
  shows "moveFunctionImage direction st =
           Inr (st\<lparr>posted := posted st @
                    concat (map (\<lambda>func. requestsOver st func
                                   (if direction = LEFT then snd (cameraPosition st)
                                    else fst (visibleRange st))
                                   (if direction = LEFT then snd (visibleRange st)
                                    else fst (cameraPosition st))
                                   direction)
                              (functionList st)),
                  cameraPosition := visibleRange st\<rparr>)"
  using assms(1,2)
  by (simp add: moveFunctionImage_def Let_def visibleRange_def
        forEach_calculatePoints [OF assms(3)])

lemma zoomFunctionImage_in_returns:
  assumes "displayedPoints st \<noteq> []" and "scale st \<noteq> 0" and "0 < spacing st"
  shows "zoomFunctionImage ZOOM_IN st =
           Inr (st\<lparr>displayedPoints := [],
                  posted := posted st @
                    concat (map (\<lambda>func. requestsOver st func (fst (visibleRange st))
                                   (snd (visibleRange st)) LEFT)
                              (functionList st)),
                  cameraPosition := visibleRange st\<rparr>)"
  using assms(1,2)
  by (simp add: zoomFunctionImage_def Let_def visibleRange_def
        forEach_calculatePoints [OF assms(3)])

lemma zoomFunctionImage_out_returns:
  assumes "displayedPoints st \<noteq> []" and "scale st \<noteq> 0" and "0 < spacing st"
  shows "zoomFunctionImage ZOOM_OUT st =
           Inr (st\<lparr>posted := posted st @
                    concat (map (\<lambda>func.
                                   requestsOver st func (fst (visibleRange st))
                                     (fst (cameraPosition st)) RIGHT @
                                   requestsOver st func (snd (cameraPosition st))
                                     (snd (visibleRange st)) LEFT)
                              (functionList st)),
                  cameraPosition := visibleRange st\<rparr>)"
  using assms(1,2)
  by (simp add: zoomFunctionImage_def Let_def visibleRange_def
        forEach_calculatePoints_twice [OF assms(3)])

lemma fullyRefreshFunctions_returns:
  assumes "scale st \<noteq> 0" and "0 < spacing st"
  shows "fullyRefreshFunctions st =
           Inr (st\<lparr>displayedPoints := [],
                  posted := posted st @
                    concat (map (\<lambda>func. requestsOver st func (fst (visibleRange st))
                                   (snd (visibleRange st)) LEFT)
                              (functionList st))\<rparr>)"
  using assms(1)
  by (simp add: fullyRefreshFunctions_def Let_def visibleRange_def
        forEach_calculatePoints [OF assms(2)])

lemma requestsOver_spacing:
  "spacing st' = spacing st \<Longrightarrow> requestsOver st' = requestsOver st"
  by (intro ext) (simp add: requestsOver_def)

lemma upt_3: "[0..<3] = [0, Suc 0, 2]"
  by (simp add: numeral_3_eq_3)

section \<open>Pan\<close>

lemma requestsOver_first_left:
  assumes "0 < spacing st" and "fn_mode func = NORMAL" and "lo \<le> hi"
  shows "requestsOver st func lo hi LEFT =
           Evaluate (fn_id func) NORMAL (fn_root func) lo ''add'' #
           requestsOver st func (lo + delta * spacing st) hi LEFT"
  using assms(2) ascendingRequests_step [OF delta_spacing_pos [OF assms(1)] assms(3), of func]
  by (simp add: requestsOver_def)

lemma requestsOver_first_right:
  assumes "0 < spacing st" and "fn_mode func = NORMAL" and "lo \<le> hi"
  shows "requestsOver st func lo hi RIGHT =
           Evaluate (fn_id func) NORMAL (fn_root func) hi ''unshift'' #
           requestsOver st func lo (hi - delta * spacing st) RIGHT"
  using assms(2) descendingRequests_step [OF delta_spacing_pos [OF assms(1)] assms(3), of func]
  by (simp add: requestsOver_def)

lemma requestsOver_empty: "hi < lo \<Longrightarrow> requestsOver st func lo hi direction = []"
  by (simp add: requestsOver_def ascendingRequests_def descendingRequests_def sampleCount_def
        max_def)

lemma requestsOver_polar:
  assumes "fn_mode func = POLAR"
  shows "requestsOver st func lo hi LEFT =
           (if hi < 0 then [] else ascendingRequests func (delta * spacing st) hi (max 0 lo))"
    and "requestsOver st func lo hi RIGHT =
           (if hi < 0 then [] else descendingRequests func (delta * spacing st) (max 0 lo) hi)"
  using assms by (simp_all add: requestsOver_def)

lemma requestsOver_normal:
  assumes "fn_mode func = NORMAL"
  shows "requestsOver st func lo hi LEFT = ascendingRequests func (delta * spacing st) hi lo"
    and "requestsOver st func lo hi RIGHT = descendingRequests func (delta * spacing st) lo hi"
  using assms by (simp_all add: requestsOver_def)

text \<open>
  How a state with a non-empty point stream and a stale \<open>cameraPosition\<close> comes about: a
  drag on the empty canvas moves the centre and leaves \<open>cameraPosition\<close> at \<open>[-4, 4]\<close>; the
  compile response samples the visible range \<open>[2, 10]\<close> and does not store it either; the
  first evaluate response makes the point stream non-empty.
\<close>

lemma stale_state_reached:
  "handleMouseDown origin0 700 300 viewport0 = grabbed0"
  "handleMouseMove origin0 100 300 LEFT grabbed0
     = Inr (grabbed0\<lparr>mousePoint := createPoint 100 300, center := createPoint (-200) 300\<rparr>)"
  "handleMouseUp (grabbed0\<lparr>mousePoint := createPoint 100 300, center := createPoint (-200) 300\<rparr>)
     = released0"
  "handleCalculatingWorkerMessaging compile0 released0
     = Inr (released0\<lparr>functionList := [square0],
                       posted := requestsOver viewport0 square0 2 10 LEFT\<rparr>)"
  "handleCalculatingWorkerMessaging sample0
     (released0\<lparr>functionList := [square0], posted := requestsOver viewport0 square0 2 10 LEFT\<rparr>)
     = Inr stale0"
  "handleMouseDown origin0 400 300 stale0 = regrabbed0"
proof -
  show "handleMouseDown origin0 700 300 viewport0 = grabbed0"
    by (simp add: handleMouseDown_def refreshMousePoint_def Let_def grabbed0_def viewport0_def
          origin0_def createPoint_def)
  show "handleMouseMove origin0 100 300 LEFT grabbed0
     = Inr (grabbed0\<lparr>mousePoint := createPoint 100 300, center := createPoint (-200) 300\<rparr>)"
    by (simp add: handleMouseMove_def refreshMousePoint_def moveFunctionImage_def Let_def
          grabbed0_def viewport0_def origin0_def createPoint_def)
  show "handleMouseUp (grabbed0\<lparr>mousePoint := createPoint 100 300, center := createPoint (-200) 300\<rparr>)
     = released0"
    by (simp add: handleMouseUp_def stopMoving_def grabbed0_def released0_def viewport0_def)
  have "calculatePoints st square0 2 10 LEFT = Some (requestsOver viewport0 square0 2 10 LEFT)"
    if "spacing st = 1" for st :: "nat Render"
    using that calculatePoints_returns [of st square0 2 10 LEFT]
      requestsOver_spacing [of st viewport0]
    by (simp add: viewport0_def)
  then show "handleCalculatingWorkerMessaging compile0 released0
     = Inr (released0\<lparr>functionList := [square0],
                       posted := requestsOver viewport0 square0 2 10 LEFT\<rparr>)"
    by (simp add: handleCalculatingWorkerMessaging_def drawCompleteFunction_def Let_def
          compile0_def released0_def viewport0_def square0_def RootToken_create_def
          createPoint_def)
  show "handleCalculatingWorkerMessaging sample0
     (released0\<lparr>functionList := [square0], posted := requestsOver viewport0 square0 2 10 LEFT\<rparr>)
     = Inr stale0"
    by (simp add: handleCalculatingWorkerMessaging_def responsePoint_def sample0_def stale0_def
          released0_def viewport0_def)
  show "handleMouseDown origin0 400 300 stale0 = regrabbed0"
    by (simp add: handleMouseDown_def refreshMousePoint_def Let_def regrabbed0_def stale0_def
          released0_def viewport0_def origin0_def createPoint_def)
qed

lemma handleMouseMove_down:
  assumes "mouseDown st"
  shows "handleMouseMove rect cx cy direction st =
           moveFunctionImage direction
             (st\<lparr>mousePoint := createPoint (cx * ratio st - rect_left rect)
                                   (cy * ratio st - rect_top rect),
                 center := createPoint (cx * ratio st - rect_left rect - mouseDX st)
                             (cy * ratio st - rect_top rect - mouseDY st)\<rparr>)"
  using assms
  by (simp add: handleMouseMove_def Let_def refreshMousePoint_def createPoint_def)

lemma moveFunctionImage_after_drag:
  assumes "displayedPoints st \<noteq> []" and "scale st \<noteq> 0" and "0 < spacing st"
    and "cameraPosition st = visibleRange st"
  shows "moveFunctionImage direction (st\<lparr>mousePoint := mp, center := c\<rparr>) =
           Inr (st\<lparr>mousePoint := mp, center := c,
                  posted := posted st @
                    concat (map (\<lambda>func. requestsOver st func
                                   (if direction = LEFT then snd (visibleRange st)
                                    else fst (visibleRange (st\<lparr>center := c\<rparr>)))
                                   (if direction = LEFT then snd (visibleRange (st\<lparr>center := c\<rparr>))
                                    else fst (visibleRange st))
                                   direction)
                              (functionList st)),
                  cameraPosition := visibleRange (st\<lparr>center := c\<rparr>)\<rparr>)"
proof -
  define st2 where "st2 = st\<lparr>mousePoint := mp, center := c\<rparr>"
  have f: "displayedPoints st2 \<noteq> []" "scale st2 \<noteq> 0" "0 < spacing st2"
    using assms(1-3) by (simp_all add: st2_def)
  have e: "posted st2 = posted st" "functionList st2 = functionList st"
    "cameraPosition st2 = visibleRange st"
    "visibleRange st2 = visibleRange (st\<lparr>center := c\<rparr>)"
    using assms(4) by (simp_all add: st2_def visibleRange_def)
  have r: "requestsOver st2 = requestsOver st"
    by (rule requestsOver_spacing) (simp add: st2_def)
  have "moveFunctionImage direction st2 =
          Inr (st2\<lparr>posted := posted st @
                    concat (map (\<lambda>func. requestsOver st func
                                   (if direction = LEFT then snd (visibleRange st)
                                    else fst (visibleRange (st\<lparr>center := c\<rparr>)))
                                   (if direction = LEFT then snd (visibleRange (st\<lparr>center := c\<rparr>))
                                    else fst (visibleRange st))
                                   direction)
                              (functionList st)),
                  cameraPosition := visibleRange (st\<lparr>center := c\<rparr>)\<rparr>)"
    using moveFunctionImage_returns [OF f, of direction] by (simp only: e r)
  then show ?thesis by (simp add: st2_def)
qed

text \<open>
  C2, as amended: a pan on a non-empty point stream whose stored \<open>cameraPosition\<close>
  \<open>[oldBegin, oldEnd]\<close> is the range visible before the pan samples the newly exposed slice
  and nothing else. With the mouse down \<open>handleMouseMove\<close> moves the centre and calls
  \<open>moveFunctionImage\<close>, which returns with the point stream as it was; moving left it
  posts, for each registered function in turn, what \<open>calculatePoints\<close> posts over
  \<open>[oldEnd, newEnd]\<close>, moving right what it posts over \<open>[newBegin, oldBegin]\<close>, where
  \<open>[newBegin, newEnd]\<close> is the visible range after the move. These are evaluate requests
  of the function with \<open>x\<close> in the slice, with operate \<open>add\<close> and \<open>x\<close> increasing (left) or
  operate \<open>unshift\<close> and \<open>x\<close> decreasing (right): for a \<open>NORMAL\<close> function the samples of
  the whole slice, for a \<open>POLAR\<close> function those of its part from 0 on. Whatever
  \<open>cameraPosition\<close> holds, the slice is measured from it. (The scale is not 0 and the grid
  spacing is positive.)
\<close>

theorem pan_samples_exposed_slice:
  assumes "displayedPoints st \<noteq> []" and "scale st \<noteq> 0" and "0 < spacing st"
  shows "(mouseDown st \<longrightarrow>
            handleMouseMove rect cx cy direction st =
              moveFunctionImage direction
                (st\<lparr>mousePoint := createPoint (cx * ratio st - rect_left rect)
                                      (cy * ratio st - rect_top rect),
                    center := createPoint (cx * ratio st - rect_left rect - mouseDX st)
                                (cy * ratio st - rect_top rect - mouseDY st)\<rparr>)) \<and>
         (cameraPosition st = visibleRange st \<longrightarrow>
            (\<exists>st'. moveFunctionImage LEFT (st\<lparr>mousePoint := mp, center := c\<rparr>) = Inr st' \<and>
               displayedPoints st' = displayedPoints st \<and>
               posted st' = posted st @
                 concat (map (\<lambda>func. requestsOver st func (snd (visibleRange st))
                                (snd (visibleRange (st\<lparr>center := c\<rparr>))) LEFT)
                           (functionList st))) \<and>
            (\<exists>st'. moveFunctionImage RIGHT (st\<lparr>mousePoint := mp, center := c\<rparr>) = Inr st' \<and>
               displayedPoints st' = displayedPoints st \<and>
               posted st' = posted st @
                 concat (map (\<lambda>func. requestsOver st func
                                (fst (visibleRange (st\<lparr>center := c\<rparr>)))
                                (fst (visibleRange st)) RIGHT)
                           (functionList st)))) \<and>
         (\<exists>st'. moveFunctionImage LEFT st = Inr st' \<and>
            displayedPoints st' = displayedPoints st \<and>
            posted st' = posted st @
              concat (map (\<lambda>func. requestsOver st func (snd (cameraPosition st))
                             (snd (visibleRange st)) LEFT) (functionList st))) \<and>
         (\<exists>st'. moveFunctionImage RIGHT st = Inr st' \<and>
            displayedPoints st' = displayedPoints st \<and>
            posted st' = posted st @
              concat (map (\<lambda>func. requestsOver st func (fst (visibleRange st))
                             (fst (cameraPosition st)) RIGHT) (functionList st))) \<and>
         (\<forall>func lo hi.
            calculatePoints st func lo hi LEFT = Some (requestsOver st func lo hi LEFT) \<and>
            calculatePoints st func lo hi RIGHT = Some (requestsOver st func lo hi RIGHT) \<and>
            sorted_wrt (<) (map req_x (requestsOver st func lo hi LEFT)) \<and>
            sorted_wrt (>) (map req_x (requestsOver st func lo hi RIGHT)) \<and>
            (\<forall>m \<in> set (requestsOver st func lo hi LEFT).
               \<exists>a. m = Evaluate (fn_id func) (fn_mode func) (fn_root func) a ''add'' \<and>
                   lo \<le> a \<and> a \<le> hi) \<and>
            (\<forall>m \<in> set (requestsOver st func lo hi RIGHT).
               \<exists>a. m = Evaluate (fn_id func) (fn_mode func) (fn_root func) a ''unshift'' \<and>
                   lo \<le> a \<and> a \<le> hi) \<and>
            (fn_mode func = NORMAL \<longrightarrow>
               requestsOver st func lo hi LEFT =
                 ascendingRequests func (delta * spacing st) hi lo \<and>
               requestsOver st func lo hi RIGHT =
                 descendingRequests func (delta * spacing st) lo hi) \<and>
            (fn_mode func = POLAR \<longrightarrow>
               requestsOver st func lo hi LEFT =
                 (if hi < 0 then [] else ascendingRequests func (delta * spacing st) hi (max 0 lo)) \<and>
               requestsOver st func lo hi RIGHT =
                 (if hi < 0 then []
                  else descendingRequests func (delta * spacing st) (max 0 lo) hi)))"
proof (intro conjI allI ballI impI)
  assume "mouseDown st"
  then show "handleMouseMove rect cx cy direction st =
      moveFunctionImage direction
        (st\<lparr>mousePoint := createPoint (cx * ratio st - rect_left rect)
                              (cy * ratio st - rect_top rect),
            center := createPoint (cx * ratio st - rect_left rect - mouseDX st)
                        (cy * ratio st - rect_top rect - mouseDY st)\<rparr>)"
    by (rule handleMouseMove_down)
next
  assume inv: "cameraPosition st = visibleRange st"
  show "\<exists>st'. moveFunctionImage LEFT (st\<lparr>mousePoint := mp, center := c\<rparr>) = Inr st' \<and>
               displayedPoints st' = displayedPoints st \<and>
               posted st' = posted st @
                 concat (map (\<lambda>func. requestsOver st func (snd (visibleRange st))
                                (snd (visibleRange (st\<lparr>center := c\<rparr>))) LEFT)
                           (functionList st))"
    by (simp add: moveFunctionImage_after_drag [OF assms inv])
  show "\<exists>st'. moveFunctionImage RIGHT (st\<lparr>mousePoint := mp, center := c\<rparr>) = Inr st' \<and>
               displayedPoints st' = displayedPoints st \<and>
               posted st' = posted st @
                 concat (map (\<lambda>func. requestsOver st func
                                (fst (visibleRange (st\<lparr>center := c\<rparr>)))
                                (fst (visibleRange st)) RIGHT)
                           (functionList st))"
    by (simp add: moveFunctionImage_after_drag [OF assms inv])
next
  show "\<exists>st'. moveFunctionImage LEFT st = Inr st' \<and>
            displayedPoints st' = displayedPoints st \<and>
            posted st' = posted st @
              concat (map (\<lambda>func. requestsOver st func (snd (cameraPosition st))
                             (snd (visibleRange st)) LEFT) (functionList st))"
    by (simp add: moveFunctionImage_returns [OF assms])
  show "\<exists>st'. moveFunctionImage RIGHT st = Inr st' \<and>
            displayedPoints st' = displayedPoints st \<and>
            posted st' = posted st @
              concat (map (\<lambda>func. requestsOver st func (fst (visibleRange st))
                             (fst (cameraPosition st)) RIGHT) (functionList st))"
    by (simp add: moveFunctionImage_returns [OF assms])
next
  fix func lo hi
  show "calculatePoints st func lo hi LEFT = Some (requestsOver st func lo hi LEFT)"
    and "calculatePoints st func lo hi RIGHT = Some (requestsOver st func lo hi RIGHT)"
    by (rule calculatePoints_returns [OF assms(3)])+
  show "sorted_wrt (<) (map req_x (requestsOver st func lo hi LEFT))"
    using requestsOver_sorted [OF assms(3), of LEFT func lo hi] by simp
  show "sorted_wrt (>) (map req_x (requestsOver st func lo hi RIGHT))"
    using requestsOver_sorted [OF assms(3), of RIGHT func lo hi] by simp
next
  fix func lo hi m
  assume "m \<in> set (requestsOver st func lo hi LEFT)"
  from requestsOver_member [OF assms(3) this]
  show "\<exists>a. m = Evaluate (fn_id func) (fn_mode func) (fn_root func) a ''add'' \<and>
            lo \<le> a \<and> a \<le> hi"
    by auto
next
  fix func lo hi m
  assume "m \<in> set (requestsOver st func lo hi RIGHT)"
  from requestsOver_member [OF assms(3) this]
  show "\<exists>a. m = Evaluate (fn_id func) (fn_mode func) (fn_root func) a ''unshift'' \<and>
            lo \<le> a \<and> a \<le> hi"
    by auto
next
  fix func :: "'a Function" and lo hi
  assume "fn_mode func = NORMAL"
  then show "requestsOver st func lo hi LEFT = ascendingRequests func (delta * spacing st) hi lo"
    and "requestsOver st func lo hi RIGHT = descendingRequests func (delta * spacing st) lo hi"
    by (rule requestsOver_normal)+
next
  fix func :: "'a Function" and lo hi
  assume "fn_mode func = POLAR"
  then show "requestsOver st func lo hi LEFT =
      (if hi < 0 then [] else ascendingRequests func (delta * spacing st) hi (max 0 lo))"
    and "requestsOver st func lo hi RIGHT =
      (if hi < 0 then [] else descendingRequests func (delta * spacing st) (max 0 lo) hi)"
    by (rule requestsOver_polar)+
qed

theorem pan_samples_exposed_slice_witness:
  "displayedPoints panning0 \<noteq> [] \<and> scale panning0 \<noteq> 0 \<and> 0 < spacing panning0 \<and>
   mouseDown panning0 \<and> cameraPosition panning0 = visibleRange panning0 \<and>
   (\<exists>st'. handleMouseMove origin0 400 300 LEFT panning0 = Inr st' \<and>
      displayedPoints st' = [createPoint 0 0] \<and>
      posted st' = [Evaluate 0 NORMAL 7 4 ''add'', Evaluate 0 NORMAL 7 5 ''add'']) \<and>
   (\<exists>st'. handleMouseMove origin0 600 300 RIGHT panning0 = Inr st' \<and>
      displayedPoints st' = [createPoint 0 0] \<and>
      posted st' = [Evaluate 0 NORMAL 7 (-4) ''unshift'', Evaluate 0 NORMAL 7 (-5) ''unshift''])"
proof -
  have h: "displayedPoints panning0 \<noteq> []" "scale panning0 \<noteq> 0" "0 < spacing panning0"
    by (simp_all add: panning0_def viewport0_def)
  have g: "mouseDown panning0" "cameraPosition panning0 = visibleRange panning0"
    by (simp_all add: panning0_def viewport0_def visibleRange_def)
  have vals: "displayedPoints panning0 = [createPoint 0 0]" "posted panning0 = []"
    "ratio panning0 = 1" "mouseDX panning0 = 100" "mouseDY panning0 = 0"
    "rect_left origin0 = 0" "rect_top origin0 = 0"
    by (simp_all add: panning0_def viewport0_def origin0_def)
  have left: "concat (map (\<lambda>func. requestsOver panning0 func (snd (visibleRange panning0))
                  (snd (visibleRange (panning0\<lparr>center := createPoint 300 300\<rparr>))) LEFT)
                (functionList panning0)) =
              [Evaluate 0 NORMAL 7 4 ''add'', Evaluate 0 NORMAL 7 5 ''add'']"
    by (simp add: panning0_def viewport0_def square0_def createPoint_def visibleRange_def
          requestsOver_def ascendingRequests_def sampleCount_def delta_def upt_2)
  have right: "concat (map (\<lambda>func. requestsOver panning0 func
                  (fst (visibleRange (panning0\<lparr>center := createPoint 500 300\<rparr>)))
                  (fst (visibleRange panning0)) RIGHT)
                (functionList panning0)) =
              [Evaluate 0 NORMAL 7 (-4) ''unshift'', Evaluate 0 NORMAL 7 (-5) ''unshift'']"
    by (simp add: panning0_def viewport0_def square0_def createPoint_def visibleRange_def
          requestsOver_def descendingRequests_def sampleCount_def delta_def upt_2)
  have moveL: "handleMouseMove origin0 400 300 LEFT panning0 =
      moveFunctionImage LEFT
        (panning0\<lparr>mousePoint := createPoint 400 300, center := createPoint 300 300\<rparr>)"
    using pan_samples_exposed_slice
      [where rect = origin0 and cx = 400 and cy = 300 and direction = LEFT, OF h, THEN conjunct1]
      g(1)
    by (simp add: vals)
  have moveR: "handleMouseMove origin0 600 300 RIGHT panning0 =
      moveFunctionImage RIGHT
        (panning0\<lparr>mousePoint := createPoint 600 300, center := createPoint 500 300\<rparr>)"
    using pan_samples_exposed_slice
      [where rect = origin0 and cx = 600 and cy = 300 and direction = RIGHT, OF h, THEN conjunct1]
      g(1)
    by (simp add: vals)
  from pan_samples_exposed_slice
      [where mp = "createPoint 400 300" and c = "createPoint 300 300", OF h,
       THEN conjunct2, THEN conjunct1] g(2)
  have A: "\<exists>st'. handleMouseMove origin0 400 300 LEFT panning0 = Inr st' \<and>
      displayedPoints st' = [createPoint 0 0] \<and>
      posted st' = [Evaluate 0 NORMAL 7 4 ''add'', Evaluate 0 NORMAL 7 5 ''add'']"
    unfolding moveL left vals by simp
  from pan_samples_exposed_slice
      [where mp = "createPoint 600 300" and c = "createPoint 500 300", OF h,
       THEN conjunct2, THEN conjunct1] g(2)
  have B: "\<exists>st'. handleMouseMove origin0 600 300 RIGHT panning0 = Inr st' \<and>
      displayedPoints st' = [createPoint 0 0] \<and>
      posted st' = [Evaluate 0 NORMAL 7 (-4) ''unshift'', Evaluate 0 NORMAL 7 (-5) ''unshift'']"
    unfolding moveR right vals by simp
  from h g A B show ?thesis by (intro conjI)
qed

text \<open>
  C2 as stated fails in four ways.
  \<^item> On an empty point stream: the centre has moved from 400 to 300, so the visible range
    went from \<open>[-4, 4]\<close> to \<open>[-3, 5]\<close> and the slice \<open>[4, 5]\<close> is newly exposed;
    \<open>calculatePoints\<close> would post two requests for it, but the pan returns the state as
    it was and posts nothing.
  \<^item> The slice is sampled from its first point \<open>oldEnd\<close>, which the sampling of the old
    range may have reached: at scale 400 the old range \<open>[-1, 1]\<close> was sampled at \<open>-1\<close>,
    \<open>0\<close> and \<open>1\<close>, and the pan to \<open>[0, 2]\<close> asks for \<open>1\<close> again (and \<open>2\<close>).
  \<^item> With a stale \<open>cameraPosition\<close>: in the state reached by a drag on the empty canvas,
    a compile response and an evaluate response, the point stream is not empty, the
    visible range is \<open>[2, 10]\<close> and \<open>cameraPosition\<close> is \<open>[-4, 4]\<close>. A pan right to
    \<open>[1, 9]\<close> posts nothing, although \<open>[1, 2]\<close> is newly exposed; a pan left to \<open>[3, 11]\<close>
    posts the requests over \<open>[4, 11]\<close>, from \<open>4\<close> on, which was visible before.
  \<^item> For a polar function: the pan from \<open>[-12, -4]\<close> to \<open>[-11, -3]\<close> exposes \<open>[-4, -3]\<close>,
    and nothing is posted.
\<close>

theorem pan_skips_empty_stream_and_repeats_boundary:
  "displayedPoints panned0 = [] \<and>
   cameraPosition panned0 = (-4, 4) \<and> visibleRange panned0 = (-3, 5) \<and>
   calculatePoints panned0 square0 4 5 LEFT =
     Some [Evaluate 0 NORMAL 7 4 ''add'', Evaluate 0 NORMAL 7 5 ''add''] \<and>
   moveFunctionImage LEFT panned0 = Inr panned0 \<and> posted panned0 = [] \<and>
   cameraPosition shifted0 = (-1, 1) \<and> visibleRange shifted0 = (0, 2) \<and>
   calculatePoints shifted0 square0 (-1) 1 LEFT =
     Some [Evaluate 0 NORMAL 7 (-1) ''add'', Evaluate 0 NORMAL 7 0 ''add'',
           Evaluate 0 NORMAL 7 1 ''add''] \<and>
   moveFunctionImage LEFT shifted0 =
     Inr (shifted0\<lparr>posted := [Evaluate 0 NORMAL 7 1 ''add'', Evaluate 0 NORMAL 7 2 ''add''],
                   cameraPosition := (0, 2)\<rparr>) \<and>
   handleMouseDown origin0 700 300 viewport0 = grabbed0 \<and>
   handleMouseMove origin0 100 300 LEFT grabbed0
     = Inr (grabbed0\<lparr>mousePoint := createPoint 100 300, center := createPoint (-200) 300\<rparr>) \<and>
   handleMouseUp (grabbed0\<lparr>mousePoint := createPoint 100 300, center := createPoint (-200) 300\<rparr>)
     = released0 \<and>
   handleCalculatingWorkerMessaging compile0 released0
     = Inr (released0\<lparr>functionList := [square0],
                       posted := requestsOver viewport0 square0 2 10 LEFT\<rparr>) \<and>
   handleCalculatingWorkerMessaging sample0
     (released0\<lparr>functionList := [square0], posted := requestsOver viewport0 square0 2 10 LEFT\<rparr>)
     = Inr stale0 \<and>
   handleMouseDown origin0 400 300 stale0 = regrabbed0 \<and>
   displayedPoints regrabbed0 = [createPoint 2 4] \<and>
   cameraPosition regrabbed0 = (-4, 4) \<and> visibleRange regrabbed0 = (2, 10) \<and>
   handleMouseMove origin0 500 300 RIGHT regrabbed0 =
     Inr (regrabbed0\<lparr>mousePoint := createPoint 500 300, center := createPoint (-100) 300,
                     cameraPosition := (1, 9)\<rparr>) \<and>
   calculatePoints regrabbed0 square0 1 2 RIGHT =
     Some (Evaluate 0 NORMAL 7 2 ''unshift'' #
           requestsOver regrabbed0 square0 1 (199 / 100) RIGHT) \<and>
   handleMouseMove origin0 300 300 LEFT regrabbed0 =
     Inr (regrabbed0\<lparr>mousePoint := createPoint 300 300, center := createPoint (-300) 300,
                     posted := posted regrabbed0 @
                       Evaluate 0 NORMAL 7 4 ''add'' #
                       requestsOver regrabbed0 square0 (401 / 100) 11 LEFT,
                     cameraPosition := (3, 11)\<rparr>) \<and>
   displayedPoints polar_panned0 = [createPoint 0 0] \<and> functionList polar_panned0 = [spiral0] \<and>
   cameraPosition polar_panned0 = (-12, -4) \<and> visibleRange polar_panned0 = (-11, -3) \<and>
   moveFunctionImage LEFT polar_panned0 = Inr (polar_panned0\<lparr>cameraPosition := (-11, -3)\<rparr>)"
proof (intro conjI)
  show "displayedPoints panned0 = []" "cameraPosition panned0 = (-4, 4)" "posted panned0 = []"
    "cameraPosition shifted0 = (-1, 1)"
    by (simp_all add: panned0_def shifted0_def viewport0_def)
  show "visibleRange panned0 = (-3, 5)" "visibleRange shifted0 = (0, 2)"
    by (simp_all add: visibleRange_def panned0_def shifted0_def viewport0_def createPoint_def)
  show "calculatePoints panned0 square0 4 5 LEFT =
     Some [Evaluate 0 NORMAL 7 4 ''add'', Evaluate 0 NORMAL 7 5 ''add'']"
    by (simp add: panned0_def viewport0_def square0_def calculatePoints_returns
          requestsOver_def ascendingRequests_def sampleCount_def delta_def upt_2)
  show "moveFunctionImage LEFT panned0 = Inr panned0"
    by (simp add: moveFunctionImage_def panned0_def viewport0_def)
  show "calculatePoints shifted0 square0 (-1) 1 LEFT =
     Some [Evaluate 0 NORMAL 7 (-1) ''add'', Evaluate 0 NORMAL 7 0 ''add'',
           Evaluate 0 NORMAL 7 1 ''add'']"
    by (simp add: shifted0_def viewport0_def square0_def calculatePoints_returns
          requestsOver_def ascendingRequests_def sampleCount_def delta_def upt_3)
  have "displayedPoints shifted0 \<noteq> []" "scale shifted0 \<noteq> 0" "0 < spacing shifted0"
    by (simp_all add: shifted0_def viewport0_def)
  from moveFunctionImage_returns [OF this, of LEFT]
  show "moveFunctionImage LEFT shifted0 =
     Inr (shifted0\<lparr>posted := [Evaluate 0 NORMAL 7 1 ''add'', Evaluate 0 NORMAL 7 2 ''add''],
                   cameraPosition := (0, 2)\<rparr>)"
    by (simp add: shifted0_def viewport0_def square0_def createPoint_def visibleRange_def
          requestsOver_def ascendingRequests_def sampleCount_def delta_def upt_2)
next
  show "handleMouseDown origin0 700 300 viewport0 = grabbed0"
    "handleMouseMove origin0 100 300 LEFT grabbed0
     = Inr (grabbed0\<lparr>mousePoint := createPoint 100 300, center := createPoint (-200) 300\<rparr>)"
    "handleMouseUp (grabbed0\<lparr>mousePoint := createPoint 100 300, center := createPoint (-200) 300\<rparr>)
     = released0"
    "handleCalculatingWorkerMessaging compile0 released0
     = Inr (released0\<lparr>functionList := [square0],
                       posted := requestsOver viewport0 square0 2 10 LEFT\<rparr>)"
    "handleCalculatingWorkerMessaging sample0
     (released0\<lparr>functionList := [square0], posted := requestsOver viewport0 square0 2 10 LEFT\<rparr>)
     = Inr stale0"
    "handleMouseDown origin0 400 300 stale0 = regrabbed0"
    by (rule stale_state_reached)+
next
  have f: "displayedPoints regrabbed0 \<noteq> []" "scale regrabbed0 \<noteq> 0" "0 < spacing regrabbed0"
    "mouseDown regrabbed0"
    by (simp_all add: regrabbed0_def stale0_def released0_def viewport0_def)
  have n: "fn_mode square0 = NORMAL" "fn_id square0 = 0" "fn_root square0 = 7"
    by (simp_all add: square0_def)
  have d: "delta * spacing regrabbed0 = 1 / 100"
    by (simp add: delta_def regrabbed0_def stale0_def released0_def viewport0_def)
  show "displayedPoints regrabbed0 = [createPoint 2 4]" "cameraPosition regrabbed0 = (-4, 4)"
    by (simp_all add: regrabbed0_def stale0_def released0_def viewport0_def)
  show "visibleRange regrabbed0 = (2, 10)"
    by (simp add: visibleRange_def regrabbed0_def stale0_def released0_def viewport0_def
          createPoint_def)
  have vals: "ratio regrabbed0 = 1" "mouseDX regrabbed0 = 600" "mouseDY regrabbed0 = 0"
    "rect_left origin0 = 0" "rect_top origin0 = 0" "cameraPosition regrabbed0 = (-4, 4)"
    "canvas_width regrabbed0 = 800" "scale regrabbed0 = 100"
    "functionList regrabbed0 = [square0]"
    by (simp_all add: regrabbed0_def stale0_def released0_def viewport0_def origin0_def)
  have none: "requestsOver regrabbed0 square0 1 (-4) RIGHT = []"
    by (rule requestsOver_empty) simp
  have "moveFunctionImage RIGHT
          (regrabbed0\<lparr>mousePoint := createPoint 500 300, center := createPoint (-100) 300\<rparr>) =
        Inr (regrabbed0\<lparr>mousePoint := createPoint 500 300, center := createPoint (-100) 300,
                        cameraPosition := (1, 9)\<rparr>)"
    using f(1-3) none
    by (subst moveFunctionImage_returns)
      (simp_all add: visibleRange_def vals createPoint_def
         requestsOver_spacing [of "regrabbed0\<lparr>mousePoint := \<lparr>pt_x = 500, pt_y = 300\<rparr>,
                                              center := \<lparr>pt_x = -100, pt_y = 300\<rparr>\<rparr>" regrabbed0])
  then show "handleMouseMove origin0 500 300 RIGHT regrabbed0 =
     Inr (regrabbed0\<lparr>mousePoint := createPoint 500 300, center := createPoint (-100) 300,
                     cameraPosition := (1, 9)\<rparr>)"
    by (simp add: handleMouseMove_down [OF f(4)] vals)
  show "calculatePoints regrabbed0 square0 1 2 RIGHT =
     Some (Evaluate 0 NORMAL 7 2 ''unshift'' #
           requestsOver regrabbed0 square0 1 (199 / 100) RIGHT)"
    using requestsOver_first_right [OF f(3) n(1), of 1 2]
    by (simp add: calculatePoints_returns [OF f(3)] n d)
  have first: "requestsOver regrabbed0 square0 4 11 LEFT =
      Evaluate 0 NORMAL 7 4 ''add'' # requestsOver regrabbed0 square0 (401 / 100) 11 LEFT"
    using requestsOver_first_left [OF f(3) n(1), of 4 11] by (simp add: n d)
  have "moveFunctionImage LEFT
          (regrabbed0\<lparr>mousePoint := createPoint 300 300, center := createPoint (-300) 300\<rparr>) =
        Inr (regrabbed0\<lparr>mousePoint := createPoint 300 300, center := createPoint (-300) 300,
                        posted := posted regrabbed0 @
                          Evaluate 0 NORMAL 7 4 ''add'' #
                          requestsOver regrabbed0 square0 (401 / 100) 11 LEFT,
                        cameraPosition := (3, 11)\<rparr>)"
    using f(1-3) first
    by (subst moveFunctionImage_returns)
      (simp_all add: visibleRange_def vals createPoint_def
         requestsOver_spacing [of "regrabbed0\<lparr>mousePoint := \<lparr>pt_x = 300, pt_y = 300\<rparr>,
                                              center := \<lparr>pt_x = -300, pt_y = 300\<rparr>\<rparr>" regrabbed0])
  then show "handleMouseMove origin0 300 300 LEFT regrabbed0 =
     Inr (regrabbed0\<lparr>mousePoint := createPoint 300 300, center := createPoint (-300) 300,
                     posted := posted regrabbed0 @
                       Evaluate 0 NORMAL 7 4 ''add'' #
                       requestsOver regrabbed0 square0 (401 / 100) 11 LEFT,
                     cameraPosition := (3, 11)\<rparr>)"
    by (simp add: handleMouseMove_down [OF f(4)] vals)
next
  show "displayedPoints polar_panned0 = [createPoint 0 0]" "functionList polar_panned0 = [spiral0]"
    "cameraPosition polar_panned0 = (-12, -4)"
    by (simp_all add: polar_panned0_def viewport0_def)
  show "visibleRange polar_panned0 = (-11, -3)"
    by (simp add: visibleRange_def polar_panned0_def viewport0_def createPoint_def)
  have "displayedPoints polar_panned0 \<noteq> []" "scale polar_panned0 \<noteq> 0" "0 < spacing polar_panned0"
    by (simp_all add: polar_panned0_def viewport0_def)
  from moveFunctionImage_returns [OF this, of LEFT]
  show "moveFunctionImage LEFT polar_panned0 = Inr (polar_panned0\<lparr>cameraPosition := (-11, -3)\<rparr>)"
    by (simp add: polar_panned0_def viewport0_def spiral0_def createPoint_def visibleRange_def
          requestsOver_def)
qed

section \<open>Zoom\<close>

lemma zoomFunctionImage_out_exposed:
  assumes "displayedPoints st \<noteq> []" and "scale st \<noteq> 0" and "0 < spacing st"
    and "cameraPosition st = visibleRange (st\<lparr>scale := s0\<rparr>)"
  shows "zoomFunctionImage ZOOM_OUT st =
           Inr (st\<lparr>posted := posted st @
                    concat (map (\<lambda>func.
                                   requestsOver st func (fst (visibleRange st))
                                     (fst (visibleRange (st\<lparr>scale := s0\<rparr>))) RIGHT @
                                   requestsOver st func (snd (visibleRange (st\<lparr>scale := s0\<rparr>)))
                                     (snd (visibleRange st)) LEFT)
                              (functionList st)),
                  cameraPosition := visibleRange st\<rparr>)"
  using zoomFunctionImage_out_returns [OF assms(1-3)] by (simp only: assms(4))

lemma zoom_out_contains_old_range:
  assumes "0 < scale st" and "scale st \<le> s0"
    and "0 \<le> pt_x (center st)" and "pt_x (center st) \<le> canvas_width st"
  shows "fst (visibleRange st) \<le> fst (visibleRange (st\<lparr>scale := s0\<rparr>))"
    and "snd (visibleRange (st\<lparr>scale := s0\<rparr>)) \<le> snd (visibleRange st)"
proof -
  have s0: "0 < s0" using assms(1,2) by simp
  have "pt_x (center st) / s0 \<le> pt_x (center st) / scale st"
    using assms(1-3) by (intro divide_left_mono) (simp_all add: s0)
  then show "fst (visibleRange st) \<le> fst (visibleRange (st\<lparr>scale := s0\<rparr>))"
    by (simp add: visibleRange_def)
  have "(canvas_width st - pt_x (center st)) / s0 \<le>
        (canvas_width st - pt_x (center st)) / scale st"
    using assms(1,2,4) by (intro divide_left_mono) (simp_all add: s0)
  then show "snd (visibleRange (st\<lparr>scale := s0\<rparr>)) \<le> snd (visibleRange st)"
    by (simp add: visibleRange_def)
qed

text \<open>
  C3, as amended: a call of \<open>zoomFunctionImage\<close> on a non-empty point stream, with
  \<open>[newBegin, newEnd]\<close> the visible range of the centre and scale at the call (which is
  also the visible range on return). A zoom in clears the point stream and posts, for each
  registered function in turn, what \<open>calculatePoints\<close> posts over the whole of
  \<open>[newBegin, newEnd]\<close>. A zoom out leaves the point stream as it is and posts, for each
  registered function in turn, what \<open>calculatePoints\<close> posts over \<open>[newBegin, oldBegin]\<close>
  (descending, operate \<open>unshift\<close>) and then over \<open>[oldEnd, newEnd]\<close> (ascending, operate
  \<open>add\<close>), and nothing else, where \<open>[oldBegin, oldEnd]\<close> is the stored \<open>cameraPosition\<close>.
  When \<open>cameraPosition\<close> is the range that was visible at the old scale, these are the two
  newly exposed edge ranges: for a smaller positive scale and a centre inside the canvas
  the new range contains the old one. For a \<open>NORMAL\<close> function \<open>calculatePoints\<close> samples
  the whole of a range, for a \<open>POLAR\<close> function its part from 0 on. (The scale is not 0
  and the grid spacing is positive.)
\<close>

theorem zoom_resamples:
  assumes "displayedPoints st \<noteq> []" and "scale st \<noteq> 0" and "0 < spacing st"
  shows "(\<exists>st'. zoomFunctionImage ZOOM_IN st = Inr st' \<and>
            displayedPoints st' = [] \<and> visibleRange st' = visibleRange st \<and>
            posted st' = posted st @
              concat (map (\<lambda>func. requestsOver st func (fst (visibleRange st))
                             (snd (visibleRange st)) LEFT) (functionList st))) \<and>
         (\<exists>st'. zoomFunctionImage ZOOM_OUT st = Inr st' \<and>
            displayedPoints st' = displayedPoints st \<and> visibleRange st' = visibleRange st \<and>
            posted st' = posted st @
              concat (map (\<lambda>func.
                             requestsOver st func (fst (visibleRange st))
                               (fst (cameraPosition st)) RIGHT @
                             requestsOver st func (snd (cameraPosition st))
                               (snd (visibleRange st)) LEFT) (functionList st))) \<and>
         (cameraPosition st = visibleRange (st\<lparr>scale := s0\<rparr>) \<longrightarrow>
            (\<exists>st'. zoomFunctionImage ZOOM_OUT st = Inr st' \<and>
               displayedPoints st' = displayedPoints st \<and>
               posted st' = posted st @
                 concat (map (\<lambda>func.
                                requestsOver st func (fst (visibleRange st))
                                  (fst (visibleRange (st\<lparr>scale := s0\<rparr>))) RIGHT @
                                requestsOver st func (snd (visibleRange (st\<lparr>scale := s0\<rparr>)))
                                  (snd (visibleRange st)) LEFT) (functionList st)))) \<and>
         (0 < scale st \<and> scale st \<le> s0 \<and>
          0 \<le> pt_x (center st) \<and> pt_x (center st) \<le> canvas_width st \<longrightarrow>
            fst (visibleRange st) \<le> fst (visibleRange (st\<lparr>scale := s0\<rparr>)) \<and>
            snd (visibleRange (st\<lparr>scale := s0\<rparr>)) \<le> snd (visibleRange st)) \<and>
         (\<forall>func lo hi.
            calculatePoints st func lo hi LEFT = Some (requestsOver st func lo hi LEFT) \<and>
            calculatePoints st func lo hi RIGHT = Some (requestsOver st func lo hi RIGHT) \<and>
            (\<forall>m \<in> set (requestsOver st func lo hi LEFT).
               \<exists>a. m = Evaluate (fn_id func) (fn_mode func) (fn_root func) a ''add'' \<and>
                   lo \<le> a \<and> a \<le> hi) \<and>
            (\<forall>m \<in> set (requestsOver st func lo hi RIGHT).
               \<exists>a. m = Evaluate (fn_id func) (fn_mode func) (fn_root func) a ''unshift'' \<and>
                   lo \<le> a \<and> a \<le> hi) \<and>
            (fn_mode func = NORMAL \<longrightarrow>
               requestsOver st func lo hi LEFT =
                 ascendingRequests func (delta * spacing st) hi lo \<and>
               requestsOver st func lo hi RIGHT =
                 descendingRequests func (delta * spacing st) lo hi) \<and>
            (fn_mode func = POLAR \<longrightarrow>
               requestsOver st func lo hi LEFT =
                 (if hi < 0 then [] else ascendingRequests func (delta * spacing st) hi (max 0 lo)) \<and>
               requestsOver st func lo hi RIGHT =
                 (if hi < 0 then []
                  else descendingRequests func (delta * spacing st) (max 0 lo) hi)))"
proof (intro conjI allI ballI impI)
  show "\<exists>st'. zoomFunctionImage ZOOM_IN st = Inr st' \<and>
            displayedPoints st' = [] \<and> visibleRange st' = visibleRange st \<and>
            posted st' = posted st @
              concat (map (\<lambda>func. requestsOver st func (fst (visibleRange st))
                             (snd (visibleRange st)) LEFT) (functionList st))"
    by (simp add: zoomFunctionImage_in_returns [OF assms] visibleRange_def)
  show "\<exists>st'. zoomFunctionImage ZOOM_OUT st = Inr st' \<and>
            displayedPoints st' = displayedPoints st \<and> visibleRange st' = visibleRange st \<and>
            posted st' = posted st @
              concat (map (\<lambda>func.
                             requestsOver st func (fst (visibleRange st))
                               (fst (cameraPosition st)) RIGHT @
                             requestsOver st func (snd (cameraPosition st))
                               (snd (visibleRange st)) LEFT) (functionList st))"
    by (simp add: zoomFunctionImage_out_returns [OF assms] visibleRange_def)
next
  assume "cameraPosition st = visibleRange (st\<lparr>scale := s0\<rparr>)"
  from zoomFunctionImage_out_exposed [OF assms this]
  show "\<exists>st'. zoomFunctionImage ZOOM_OUT st = Inr st' \<and>
               displayedPoints st' = displayedPoints st \<and>
               posted st' = posted st @
                 concat (map (\<lambda>func.
                                requestsOver st func (fst (visibleRange st))
                                  (fst (visibleRange (st\<lparr>scale := s0\<rparr>))) RIGHT @
                                requestsOver st func (snd (visibleRange (st\<lparr>scale := s0\<rparr>)))
                                  (snd (visibleRange st)) LEFT) (functionList st))"
    by simp
next
  assume a: "0 < scale st \<and> scale st \<le> s0 \<and>
             0 \<le> pt_x (center st) \<and> pt_x (center st) \<le> canvas_width st"
  then show "fst (visibleRange st) \<le> fst (visibleRange (st\<lparr>scale := s0\<rparr>))"
    by (intro zoom_out_contains_old_range) simp_all
  from a show "snd (visibleRange (st\<lparr>scale := s0\<rparr>)) \<le> snd (visibleRange st)"
    by (intro zoom_out_contains_old_range) simp_all
next
  fix func lo hi
  show "calculatePoints st func lo hi LEFT = Some (requestsOver st func lo hi LEFT)"
    and "calculatePoints st func lo hi RIGHT = Some (requestsOver st func lo hi RIGHT)"
    by (rule calculatePoints_returns [OF assms(3)])+
next
  fix func lo hi m
  assume "m \<in> set (requestsOver st func lo hi LEFT)"
  from requestsOver_member [OF assms(3) this]
  show "\<exists>a. m = Evaluate (fn_id func) (fn_mode func) (fn_root func) a ''add'' \<and>
            lo \<le> a \<and> a \<le> hi"
    by auto
next
  fix func lo hi m
  assume "m \<in> set (requestsOver st func lo hi RIGHT)"
  from requestsOver_member [OF assms(3) this]
  show "\<exists>a. m = Evaluate (fn_id func) (fn_mode func) (fn_root func) a ''unshift'' \<and>
            lo \<le> a \<and> a \<le> hi"
    by auto
next
  fix func :: "'a Function" and lo hi
  assume "fn_mode func = NORMAL"
  then show "requestsOver st func lo hi LEFT = ascendingRequests func (delta * spacing st) hi lo"
    and "requestsOver st func lo hi RIGHT = descendingRequests func (delta * spacing st) lo hi"
    by (rule requestsOver_normal)+
next
  fix func :: "'a Function" and lo hi
  assume "fn_mode func = POLAR"
  then show "requestsOver st func lo hi LEFT =
      (if hi < 0 then [] else ascendingRequests func (delta * spacing st) hi (max 0 lo))"
    and "requestsOver st func lo hi RIGHT =
      (if hi < 0 then [] else descendingRequests func (delta * spacing st) (max 0 lo) hi)"
    by (rule requestsOver_polar)+
qed

theorem zoom_resamples_witness:
  "displayedPoints (zoomed0\<lparr>displayedPoints := [createPoint 0 0]\<rparr>) \<noteq> [] \<and>
   scale (zoomed0\<lparr>displayedPoints := [createPoint 0 0]\<rparr>) \<noteq> 0 \<and>
   0 < spacing (zoomed0\<lparr>displayedPoints := [createPoint 0 0]\<rparr>) \<and>
   (\<exists>st'. zoomFunctionImage ZOOM_IN (zoomed0\<lparr>displayedPoints := [createPoint 0 0]\<rparr>) = Inr st' \<and>
      displayedPoints st' = [] \<and>
      posted st' = [Evaluate 0 NORMAL 7 (-1) ''add'', Evaluate 0 NORMAL 7 0 ''add'',
                    Evaluate 0 NORMAL 7 1 ''add'']) \<and>
   cameraPosition (zoomed0\<lparr>displayedPoints := [createPoint 0 0], scale := 100,
                           cameraPosition := (-3, 3)\<rparr>) =
     visibleRange (zoomed0\<lparr>displayedPoints := [createPoint 0 0], scale := 100,
                            cameraPosition := (-3, 3)\<rparr>\<lparr>scale := 400 / 3\<rparr>) \<and>
   (\<exists>st'. zoomFunctionImage ZOOM_OUT
            (zoomed0\<lparr>displayedPoints := [createPoint 0 0], scale := 100,
                      cameraPosition := (-3, 3)\<rparr>) = Inr st' \<and>
      displayedPoints st' = [createPoint 0 0] \<and>
      posted st' = [Evaluate 0 NORMAL 7 (-3) ''unshift'', Evaluate 0 NORMAL 7 (-4) ''unshift'',
                    Evaluate 0 NORMAL 7 3 ''add'', Evaluate 0 NORMAL 7 4 ''add'']) \<and>
   fst (visibleRange (zoomed0\<lparr>displayedPoints := [createPoint 0 0], scale := 100,
                               cameraPosition := (-3, 3)\<rparr>)) \<le> -3 \<and>
   3 \<le> snd (visibleRange (zoomed0\<lparr>displayedPoints := [createPoint 0 0], scale := 100,
                                   cameraPosition := (-3, 3)\<rparr>))"
proof -
  let ?s = "zoomed0\<lparr>displayedPoints := [createPoint 0 0]\<rparr>"
  let ?t = "zoomed0\<lparr>displayedPoints := [createPoint 0 0], scale := 100,
                     cameraPosition := (-3, 3)\<rparr>"
  have s: "displayedPoints ?s \<noteq> []" "scale ?s \<noteq> 0" "0 < spacing ?s"
    by (simp_all add: zoomed0_def viewport0_def)
  have t: "displayedPoints ?t \<noteq> []" "scale ?t \<noteq> 0" "0 < spacing ?t"
    by (simp_all add: zoomed0_def viewport0_def)
  have old: "cameraPosition ?t = visibleRange (?t\<lparr>scale := 400 / 3\<rparr>)"
    by (simp add: zoomed0_def viewport0_def visibleRange_def)
  have zin: "concat (map (\<lambda>func. requestsOver ?s func (fst (visibleRange ?s))
                             (snd (visibleRange ?s)) LEFT) (functionList ?s)) =
               [Evaluate 0 NORMAL 7 (-1) ''add'', Evaluate 0 NORMAL 7 0 ''add'',
                Evaluate 0 NORMAL 7 1 ''add'']"
    by (simp add: zoomed0_def viewport0_def square0_def createPoint_def visibleRange_def
          requestsOver_def ascendingRequests_def sampleCount_def delta_def upt_3)
  have zout: "concat (map (\<lambda>func.
                             requestsOver ?t func (fst (visibleRange ?t))
                               (fst (visibleRange (?t\<lparr>scale := 400 / 3\<rparr>))) RIGHT @
                             requestsOver ?t func (snd (visibleRange (?t\<lparr>scale := 400 / 3\<rparr>)))
                               (snd (visibleRange ?t)) LEFT) (functionList ?t)) =
                [Evaluate 0 NORMAL 7 (-3) ''unshift'', Evaluate 0 NORMAL 7 (-4) ''unshift'',
                 Evaluate 0 NORMAL 7 3 ''add'', Evaluate 0 NORMAL 7 4 ''add'']"
    by (simp add: zoomed0_def viewport0_def square0_def createPoint_def visibleRange_def
          requestsOver_def ascendingRequests_def descendingRequests_def sampleCount_def
          delta_def upt_2)
  have pts: "posted ?s = []" "displayedPoints ?t = [createPoint 0 0]" "posted ?t = []"
    by (simp_all add: zoomed0_def viewport0_def)
  from zoom_resamples [OF s, THEN conjunct1]
  have A: "\<exists>st'. zoomFunctionImage ZOOM_IN ?s = Inr st' \<and>
      displayedPoints st' = [] \<and>
      posted st' = [Evaluate 0 NORMAL 7 (-1) ''add'', Evaluate 0 NORMAL 7 0 ''add'',
                    Evaluate 0 NORMAL 7 1 ''add'']"
    unfolding zin pts by auto
  from zoom_resamples [where ?s0.0 = "400 / 3", OF t, THEN conjunct2, THEN conjunct2, THEN conjunct1]
    old
  have B: "\<exists>st'. zoomFunctionImage ZOOM_OUT ?t = Inr st' \<and>
      displayedPoints st' = [createPoint 0 0] \<and>
      posted st' = [Evaluate 0 NORMAL 7 (-3) ''unshift'', Evaluate 0 NORMAL 7 (-4) ''unshift'',
                    Evaluate 0 NORMAL 7 3 ''add'', Evaluate 0 NORMAL 7 4 ''add'']"
    unfolding zout pts by simp
  have inside: "0 < scale ?t \<and> scale ?t \<le> 400 / 3 \<and>
      0 \<le> pt_x (center ?t) \<and> pt_x (center ?t) \<le> canvas_width ?t"
    by (simp add: zoomed0_def viewport0_def)
  have oldv: "visibleRange (?t\<lparr>scale := 400 / 3\<rparr>) = (-3, 3)"
    by (simp add: zoomed0_def viewport0_def visibleRange_def)
  from zoom_resamples [where ?s0.0 = "400 / 3", OF t,
      THEN conjunct2, THEN conjunct2, THEN conjunct2, THEN conjunct1] inside
  have C: "fst (visibleRange ?t) \<le> -3" "3 \<le> snd (visibleRange ?t)"
    unfolding oldv by simp_all
  from s A old B C show ?thesis by (intro conjI)
qed

lemma sqrt_40000: "sqrt 40000 = 200"
  using real_sqrt_abs [of 200] by simp

lemma sqrt_10000: "sqrt 10000 = 100"
  using real_sqrt_abs [of 100] by simp

text \<open>
  C3 as stated fails in four ways.
  \<^item> On an empty point stream: at scale 400 the visible range is \<open>[-1, 1]\<close>, for which
    \<open>calculatePoints\<close> would post three requests; the zoom in returns the state as it was
    and posts nothing.
  \<^item> With a stale \<open>cameraPosition\<close>: in the state reached by a drag on the empty canvas,
    a compile response and an evaluate response, the visible range is \<open>[2, 10]\<close> and
    \<open>cameraPosition\<close> is \<open>[-4, 4]\<close>. A pinch from 200 to 100 pixels halves the scale, the
    visible range becomes \<open>[4, 20]\<close>, and the zoom out posts the requests over \<open>[4, 20]\<close>,
    from \<open>4\<close> on, which was visible before.
  \<^item> Through \<open>handleWheel\<close>: a wheel step from scale 100 to 107 with the cursor at pixel 0
    samples \<open>[-400/107, 400/107]\<close>, from \<open>-400/107\<close> on, and then moves the centre to 428:
    the visible range after the zoom in is \<open>[-4, 372/107]\<close>.
  \<^item> For a polar function: the zoom in on \<open>[-4, 4]\<close> samples from \<open>0\<close> on.
\<close>

theorem zoom_in_empty_stream_samples_nothing:
  "displayedPoints zoomed0 = [] \<and> functionList zoomed0 = [square0] \<and>
   visibleRange zoomed0 = (-1, 1) \<and>
   calculatePoints zoomed0 square0 (-1) 1 LEFT =
     Some [Evaluate 0 NORMAL 7 (-1) ''add'', Evaluate 0 NORMAL 7 0 ''add'',
           Evaluate 0 NORMAL 7 1 ''add''] \<and>
   zoomFunctionImage ZOOM_IN zoomed0 = Inr zoomed0 \<and> posted zoomed0 = [] \<and>
   handleMouseDown origin0 700 300 viewport0 = grabbed0 \<and>
   handleMouseMove origin0 100 300 LEFT grabbed0
     = Inr (grabbed0\<lparr>mousePoint := createPoint 100 300, center := createPoint (-200) 300\<rparr>) \<and>
   handleMouseUp (grabbed0\<lparr>mousePoint := createPoint 100 300, center := createPoint (-200) 300\<rparr>)
     = released0 \<and>
   handleCalculatingWorkerMessaging compile0 released0
     = Inr (released0\<lparr>functionList := [square0],
                       posted := requestsOver viewport0 square0 2 10 LEFT\<rparr>) \<and>
   handleCalculatingWorkerMessaging sample0
     (released0\<lparr>functionList := [square0], posted := requestsOver viewport0 square0 2 10 LEFT\<rparr>)
     = Inr stale0 \<and>
   handleTouchZoom origin0 0 0 200 0 stale0 = Inr pinch_begun0 \<and>
   displayedPoints pinch_begun0 = [createPoint 2 4] \<and>
   cameraPosition pinch_begun0 = (-4, 4) \<and> visibleRange pinch_begun0 = (2, 10) \<and>
   handleTouchZoom origin0 0 0 100 0 pinch_begun0 =
     Inr (pinch_out0\<lparr>posted := posted pinch_begun0 @
                       Evaluate 0 NORMAL 7 4 ''add'' #
                       requestsOver pinch_out0 square0 (201 / 50) 20 LEFT,
                     cameraPosition := (4, 20), lastZoomingSize := Some 100\<rparr>) \<and>
   visibleRange pinch_out0 = (4, 20) \<and>
   cameraPosition wheeling0 = visibleRange wheeling0 \<and>
   handleWheel (-1) wheeling0 = Inr wheeled0 \<and>
   visibleRange wheeled0 = (-4, 372 / 107) \<and>
   zoomFunctionImage ZOOM_IN polar_zoomed0 =
     Inr (polar_zoomed0\<lparr>displayedPoints := [],
                         posted := Evaluate 1 POLAR 8 0 ''add'' #
                           ascendingRequests spiral0 (1 / 100) 4 (1 / 100)\<rparr>) \<and>
   visibleRange polar_zoomed0 = (-4, 4)"
proof (intro conjI)
  show "displayedPoints zoomed0 = []" "functionList zoomed0 = [square0]" "posted zoomed0 = []"
    by (simp_all add: zoomed0_def viewport0_def)
  show "visibleRange zoomed0 = (-1, 1)"
    by (simp add: visibleRange_def zoomed0_def viewport0_def)
  show "calculatePoints zoomed0 square0 (-1) 1 LEFT =
     Some [Evaluate 0 NORMAL 7 (-1) ''add'', Evaluate 0 NORMAL 7 0 ''add'',
           Evaluate 0 NORMAL 7 1 ''add'']"
    by (simp add: zoomed0_def viewport0_def square0_def calculatePoints_returns
          requestsOver_def ascendingRequests_def sampleCount_def delta_def upt_3)
  show "zoomFunctionImage ZOOM_IN zoomed0 = Inr zoomed0"
    by (simp add: zoomFunctionImage_def zoomed0_def viewport0_def)
next
  show "handleMouseDown origin0 700 300 viewport0 = grabbed0"
    "handleMouseMove origin0 100 300 LEFT grabbed0
     = Inr (grabbed0\<lparr>mousePoint := createPoint 100 300, center := createPoint (-200) 300\<rparr>)"
    "handleMouseUp (grabbed0\<lparr>mousePoint := createPoint 100 300, center := createPoint (-200) 300\<rparr>)
     = released0"
    "handleCalculatingWorkerMessaging compile0 released0
     = Inr (released0\<lparr>functionList := [square0],
                       posted := requestsOver viewport0 square0 2 10 LEFT\<rparr>)"
    "handleCalculatingWorkerMessaging sample0
     (released0\<lparr>functionList := [square0], posted := requestsOver viewport0 square0 2 10 LEFT\<rparr>)
     = Inr stale0"
    by (rule stale_state_reached)+
next
  show "handleTouchZoom origin0 0 0 200 0 stale0 = Inr pinch_begun0"
    by (simp add: handleTouchZoom_def falsy_def Let_def pinch_begun0_def stale0_def
          released0_def viewport0_def origin0_def createPoint_def sqrt_40000)
  show "displayedPoints pinch_begun0 = [createPoint 2 4]" "cameraPosition pinch_begun0 = (-4, 4)"
    by (simp_all add: pinch_begun0_def stale0_def released0_def viewport0_def)
  show "visibleRange pinch_begun0 = (2, 10)"
    by (simp add: visibleRange_def pinch_begun0_def stale0_def released0_def viewport0_def
          createPoint_def)
  show "visibleRange pinch_out0 = (4, 20)"
    by (simp add: visibleRange_def pinch_out0_def pinch_begun0_def stale0_def released0_def
          viewport0_def createPoint_def)
  have step: "handleTouchZoom origin0 0 0 100 0 pinch_begun0 =
      (case zoomFunctionImage ZOOM_OUT pinch_out0 of Inl e \<Rightarrow> Inl e
       | Inr st3 \<Rightarrow> Inr (st3\<lparr>lastZoomingSize := Some 100\<rparr>))"
    by (simp add: handleTouchZoom_def falsy_def scalingAdapt_def Let_def pinch_out0_def
          pinch_begun0_def stale0_def released0_def viewport0_def origin0_def createPoint_def
          sqrt_10000 cong: sum.case_cong)
  have f: "displayedPoints pinch_out0 \<noteq> []" "scale pinch_out0 \<noteq> 0" "0 < spacing pinch_out0"
    by (simp_all add: pinch_out0_def pinch_begun0_def stale0_def released0_def viewport0_def)
  have vals: "cameraPosition pinch_out0 = (-4, 4)" "functionList pinch_out0 = [square0]"
    "posted pinch_out0 = posted pinch_begun0"
    by (simp_all add: pinch_out0_def pinch_begun0_def stale0_def released0_def viewport0_def)
  have vr: "visibleRange pinch_out0 = (4, 20)"
    by (simp add: visibleRange_def pinch_out0_def pinch_begun0_def stale0_def released0_def
          viewport0_def createPoint_def)
  have d: "delta * spacing pinch_out0 = 1 / 50"
    by (simp add: delta_def pinch_out0_def)
  have n: "fn_mode square0 = NORMAL" "fn_id square0 = 0" "fn_root square0 = 7"
    by (simp_all add: square0_def)
  have none: "requestsOver pinch_out0 square0 4 (-4) RIGHT = []"
    by (rule requestsOver_empty) simp
  have first: "requestsOver pinch_out0 square0 4 20 LEFT =
      Evaluate 0 NORMAL 7 4 ''add'' # requestsOver pinch_out0 square0 (201 / 50) 20 LEFT"
    using requestsOver_first_left [OF f(3) n(1), of 4 20] by (simp add: n d)
  have "zoomFunctionImage ZOOM_OUT pinch_out0 =
      Inr (pinch_out0\<lparr>posted := posted pinch_begun0 @
                        Evaluate 0 NORMAL 7 4 ''add'' #
                        requestsOver pinch_out0 square0 (201 / 50) 20 LEFT,
                      cameraPosition := (4, 20)\<rparr>)"
    unfolding zoomFunctionImage_out_returns [OF f] vals vr by (simp add: none first)
  then show "handleTouchZoom origin0 0 0 100 0 pinch_begun0 =
     Inr (pinch_out0\<lparr>posted := posted pinch_begun0 @
                       Evaluate 0 NORMAL 7 4 ''add'' #
                       requestsOver pinch_out0 square0 (201 / 50) 20 LEFT,
                     cameraPosition := (4, 20), lastZoomingSize := Some 100\<rparr>)"
    unfolding step by simp
next
  show "cameraPosition wheeling0 = visibleRange wheeling0"
    by (simp add: visibleRange_def wheeling0_def viewport0_def)
  show "visibleRange wheeled0 = (-4, 372 / 107)"
    by (simp add: visibleRange_def wheeled0_def wheeling0_def viewport0_def createPoint_def)
  let ?z = "wheeling0\<lparr>scale := 107\<rparr>"
  have f: "displayedPoints ?z \<noteq> []" "scale ?z \<noteq> 0" "0 < spacing ?z"
    by (simp_all add: wheeling0_def viewport0_def)
  have n: "fn_mode square0 = NORMAL" "fn_id square0 = 0" "fn_root square0 = 7"
    by (simp_all add: square0_def)
  have sp: "0 < spacing wheeling0" "delta * spacing wheeling0 = 1 / 100"
    by (simp_all add: delta_def wheeling0_def viewport0_def)
  have r: "requestsOver ?z = requestsOver wheeling0"
    by (rule requestsOver_spacing) simp
  have vr: "visibleRange ?z = (- (400 / 107), 400 / 107)" "functionList ?z = [square0]"
    "posted ?z = []"
    by (simp_all add: visibleRange_def wheeling0_def viewport0_def)
  have first: "requestsOver wheeling0 square0 (- (400 / 107)) (400 / 107) LEFT =
      Evaluate 0 NORMAL 7 (- (400 / 107)) ''add'' #
      requestsOver wheeling0 square0 (- (400 / 107) + 1 / 100) (400 / 107) LEFT"
    using requestsOver_first_left [OF sp(1) n(1), of "- (400 / 107)" "400 / 107"]
    by (simp add: n sp)
  have zoom: "zoomFunctionImage ZOOM_IN ?z =
      Inr (?z\<lparr>displayedPoints := [],
               posted := Evaluate 0 NORMAL 7 (- (400 / 107)) ''add'' #
                 requestsOver wheeling0 square0 (- (400 / 107) + 1 / 100) (400 / 107) LEFT,
               cameraPosition := (- (400 / 107), 400 / 107)\<rparr>)"
    unfolding zoomFunctionImage_in_returns [OF f] vr r by (simp add: first)
  have adapt: "scalingAdapt (wheeling0\<lparr>scale := 107\<rparr>) = wheeling0\<lparr>scale := 107\<rparr>"
    by (simp add: scalingAdapt_def wheeling0_def viewport0_def)
  have st: "spacing wheeling0 = 1" "scale wheeling0 = 100"
    "pointToCoordinates wheeling0 (mousePoint wheeling0) = Some (createPoint (-4) 3)"
    by (simp_all add: pointToCoordinates_def wheeling0_def viewport0_def createPoint_def)
  show "handleWheel (-1) wheeling0 = Inr wheeled0"
    unfolding handleWheel_def st
    apply (simp add: adapt zoom)
    apply (simp add: pointToCoordinates_def Let_def wheeled0_def wheeling0_def viewport0_def
        createPoint_def)
    done
next
  show "visibleRange polar_zoomed0 = (-4, 4)"
    by (simp add: visibleRange_def polar_zoomed0_def viewport0_def)
  have f: "displayedPoints polar_zoomed0 \<noteq> []" "scale polar_zoomed0 \<noteq> 0"
    "0 < spacing polar_zoomed0"
    by (simp_all add: polar_zoomed0_def viewport0_def)
  have vr: "visibleRange polar_zoomed0 = (-4, 4)" "functionList polar_zoomed0 = [spiral0]"
    "posted polar_zoomed0 = []"
    by (simp_all add: visibleRange_def polar_zoomed0_def viewport0_def)
  have d: "delta * spacing polar_zoomed0 = 1 / 100"
    by (simp add: delta_def polar_zoomed0_def viewport0_def)
  have "requestsOver polar_zoomed0 spiral0 (-4) 4 LEFT =
      Evaluate 1 POLAR 8 0 ''add'' # ascendingRequests spiral0 (1 / 100) 4 (1 / 100)"
    using ascendingRequests_step [of "1 / 100" 0 4 spiral0]
    by (simp add: requestsOver_def d spiral0_def)
  then show "zoomFunctionImage ZOOM_IN polar_zoomed0 =
     Inr (polar_zoomed0\<lparr>displayedPoints := [],
                         posted := Evaluate 1 POLAR 8 0 ''add'' #
                           ascendingRequests spiral0 (1 / 100) 4 (1 / 100)\<rparr>)"
    unfolding zoomFunctionImage_in_returns [OF f] vr
    by (simp add: polar_zoomed0_def viewport0_def)
qed

section \<open>Editing a function\<close>

text \<open>
  C7, as amended: a \<open>compile-and-set\<close> response \<open>{index, mode, root}\<close> whose index is a
  position of the function list, in a state whose scale is not 0 and whose grid spacing
  is positive. The handler returns; the function at \<open>index\<close> is replaced by one with the
  old id and the new mode and root, the other functions stay; the point stream is empty
  afterwards; and for each function of the new list in turn what \<open>calculatePoints\<close> posts
  over the visible range \<open>[-center.x/scale, (canvasWidth - center.x)/scale]\<close> is posted,
  ascending with operate \<open>add\<close>: for a \<open>NORMAL\<close> function the samples of the whole range,
  for a \<open>POLAR\<close> function those from \<open>max 0 begin\<close> on, none when the range ends below 0.
\<close>

theorem compile_and_set_replaces_and_resamples:
  assumes "res_type res = ''compile-and-set''"
    and "0 \<le> res_index res" and "res_index res < int (length (functionList st))"
    and "scale st \<noteq> 0" and "0 < spacing st"
  shows "\<exists>st'. handleCalculatingWorkerMessaging res st = Inr st' \<and>
           functionList st' =
             (functionList st)[nat (res_index res) :=
                \<lparr>fn_id = fn_id (functionList st ! nat (res_index res)),
                 fn_mode = res_mode res, fn_root = RootToken_create (res_root res)\<rparr>] \<and>
           displayedPoints st' = [] \<and>
           posted st' = posted st @
             concat (map (\<lambda>func. requestsOver st func (fst (visibleRange st))
                            (snd (visibleRange st)) LEFT) (functionList st')) \<and>
           (\<forall>func lo hi.
              calculatePoints st func lo hi LEFT = Some (requestsOver st func lo hi LEFT) \<and>
              (fn_mode func = NORMAL \<longrightarrow>
                 requestsOver st func lo hi LEFT =
                   ascendingRequests func (delta * spacing st) hi lo) \<and>
              (fn_mode func = POLAR \<longrightarrow>
                 requestsOver st func lo hi LEFT =
                   (if hi < 0 then []
                    else ascendingRequests func (delta * spacing st) hi (max 0 lo))))"
proof -
  let ?new = "\<lparr>fn_id = fn_id (functionList st ! nat (res_index res)),
               fn_mode = res_mode res, fn_root = RootToken_create (res_root res)\<rparr>"
  let ?st1 = "st\<lparr>functionList := (functionList st)[nat (res_index res) := ?new]\<rparr>"
  have get: "List_get (functionList st) (res_index res) =
               Some (functionList st ! nat (res_index res))"
    using assms(2,3) by (simp add: List_get_def)
  have step: "handleCalculatingWorkerMessaging res st = fullyRefreshFunctions ?st1"
    using assms(1) by (simp add: handleCalculatingWorkerMessaging_def get List_set_def)
  have "scale ?st1 \<noteq> 0" and "0 < spacing ?st1"
    using assms(4,5) by simp_all
  from fullyRefreshFunctions_returns [OF this]
  have "fullyRefreshFunctions ?st1 =
          Inr (?st1\<lparr>displayedPoints := [],
                 posted := posted st @
                   concat (map (\<lambda>func. requestsOver st func (fst (visibleRange st))
                                  (snd (visibleRange st)) LEFT)
                             ((functionList st)[nat (res_index res) := ?new]))\<rparr>)"
    by (simp add: visibleRange_def requestsOver_spacing [of ?st1 st])
  with step have main: "\<exists>st'. handleCalculatingWorkerMessaging res st = Inr st' \<and>
           functionList st' = (functionList st)[nat (res_index res) := ?new] \<and>
           displayedPoints st' = [] \<and>
           posted st' = posted st @
             concat (map (\<lambda>func. requestsOver st func (fst (visibleRange st))
                            (snd (visibleRange st)) LEFT) (functionList st'))"
    by simp
  have content: "calculatePoints st func lo hi LEFT = Some (requestsOver st func lo hi LEFT) \<and>
      (fn_mode func = NORMAL \<longrightarrow>
         requestsOver st func lo hi LEFT = ascendingRequests func (delta * spacing st) hi lo) \<and>
      (fn_mode func = POLAR \<longrightarrow>
         requestsOver st func lo hi LEFT =
           (if hi < 0 then [] else ascendingRequests func (delta * spacing st) hi (max 0 lo)))"
    for func :: "'a Function" and lo hi
    by (simp add: calculatePoints_returns [OF assms(5)] requestsOver_normal requestsOver_polar)
  from main content show ?thesis by blast
qed

theorem compile_and_set_replaces_and_resamples_witness:
  "res_type edit0 = ''compile-and-set'' \<and> 0 \<le> res_index edit0 \<and>
   res_index edit0 < int (length (functionList plotted0)) \<and>
   scale plotted0 \<noteq> 0 \<and> 0 < spacing plotted0 \<and>
   (\<exists>st'. handleCalculatingWorkerMessaging edit0 plotted0 = Inr st' \<and>
      functionList st' = [\<lparr>fn_id = 0, fn_mode = NORMAL, fn_root = 9\<rparr>, spiral0] \<and>
      displayedPoints st' = [] \<and>
      posted st' = [Evaluate 0 NORMAL 9 (-1) ''add'', Evaluate 0 NORMAL 9 0 ''add'',
                    Evaluate 0 NORMAL 9 1 ''add'', Evaluate 1 POLAR 8 0 ''add'',
                    Evaluate 1 POLAR 8 1 ''add''])"
proof -
  have hyps: "res_type edit0 = ''compile-and-set''" "0 \<le> res_index edit0"
    "res_index edit0 < int (length (functionList plotted0))"
    "scale plotted0 \<noteq> 0" "0 < spacing plotted0"
    by (simp_all add: edit0_def plotted0_def viewport0_def)
  have new: "(functionList plotted0)[nat (res_index edit0) :=
                \<lparr>fn_id = fn_id (functionList plotted0 ! nat (res_index edit0)),
                 fn_mode = res_mode edit0, fn_root = RootToken_create (res_root edit0)\<rparr>] =
             [\<lparr>fn_id = 0, fn_mode = NORMAL, fn_root = 9\<rparr>, spiral0]"
    by (simp add: edit0_def plotted0_def viewport0_def square0_def RootToken_create_def)
  have reqs: "posted plotted0 @
                concat (map (\<lambda>func. requestsOver plotted0 func (fst (visibleRange plotted0))
                               (snd (visibleRange plotted0)) LEFT)
                          [\<lparr>fn_id = 0, fn_mode = NORMAL, fn_root = 9\<rparr>, spiral0]) =
              [Evaluate 0 NORMAL 9 (-1) ''add'', Evaluate 0 NORMAL 9 0 ''add'',
               Evaluate 0 NORMAL 9 1 ''add'', Evaluate 1 POLAR 8 0 ''add'',
               Evaluate 1 POLAR 8 1 ''add'']"
    by (simp add: plotted0_def viewport0_def spiral0_def createPoint_def visibleRange_def
          requestsOver_def ascendingRequests_def sampleCount_def delta_def upt_2 upt_3)
  from compile_and_set_replaces_and_resamples [OF hyps]
  obtain st' where ret: "handleCalculatingWorkerMessaging edit0 plotted0 = Inr st'"
    and fl: "functionList st' =
               (functionList plotted0)[nat (res_index edit0) :=
                  \<lparr>fn_id = fn_id (functionList plotted0 ! nat (res_index edit0)),
                   fn_mode = res_mode edit0, fn_root = RootToken_create (res_root edit0)\<rparr>]"
    and pts: "displayedPoints st' = []"
    and po: "posted st' = posted plotted0 @
               concat (map (\<lambda>func. requestsOver plotted0 func (fst (visibleRange plotted0))
                              (snd (visibleRange plotted0)) LEFT) (functionList st'))"
    by blast
  from fl have fl': "functionList st' = [\<lparr>fn_id = 0, fn_mode = NORMAL, fn_root = 9\<rparr>, spiral0]"
    unfolding new .
  from po have "posted st' =
      [Evaluate 0 NORMAL 9 (-1) ''add'', Evaluate 0 NORMAL 9 0 ''add'',
       Evaluate 0 NORMAL 9 1 ''add'', Evaluate 1 POLAR 8 0 ''add'',
       Evaluate 1 POLAR 8 1 ''add'']"
    unfolding fl' reqs .
  with ret fl' pts
  have "\<exists>st'. handleCalculatingWorkerMessaging edit0 plotted0 = Inr st' \<and>
      functionList st' = [\<lparr>fn_id = 0, fn_mode = NORMAL, fn_root = 9\<rparr>, spiral0] \<and>
      displayedPoints st' = [] \<and>
      posted st' = [Evaluate 0 NORMAL 9 (-1) ''add'', Evaluate 0 NORMAL 9 0 ''add'',
                    Evaluate 0 NORMAL 9 1 ''add'', Evaluate 1 POLAR 8 0 ''add'',
                    Evaluate 1 POLAR 8 1 ''add'']"
    by blast
  with hyps show ?thesis by (intro conjI)
qed

text \<open>
  C7 as stated fails in two ways.
  \<^item> A polar function is not sampled over the full visible range: with the visible range
    \<open>[-1, 1]\<close> the new function at position 0 is sampled at \<open>-1\<close>, \<open>0\<close> and \<open>1\<close>, the polar
    function at position 1 at \<open>0\<close> and \<open>1\<close> only.
  \<^item> At scale 0, which a pinch with both touch points in one place sets, the bounds of
    the visible range are divisions by zero: no range of numbers is sampled.
\<close>

theorem compile_and_set_polar_cut_and_zero_scale:
  "visibleRange plotted0 = (-1, 1) \<and>
   handleCalculatingWorkerMessaging edit0 plotted0 =
     Inr (plotted0\<lparr>functionList := [\<lparr>fn_id = 0, fn_mode = NORMAL, fn_root = 9\<rparr>, spiral0],
                   displayedPoints := [],
                   posted := [Evaluate 0 NORMAL 9 (-1) ''add'', Evaluate 0 NORMAL 9 0 ''add'',
                              Evaluate 0 NORMAL 9 1 ''add'', Evaluate 1 POLAR 8 0 ''add'',
                              Evaluate 1 POLAR 8 1 ''add'']\<rparr>) \<and>
   handleTouchZoom origin0 5 5 5 5 squeezing0 =
     Inr (squeezing0\<lparr>scale := 0, spacing := 2, lastZoomingSize := Some 0\<rparr>) \<and>
   handleCalculatingWorkerMessaging edit0
     (squeezing0\<lparr>scale := 0, spacing := 2, lastZoomingSize := Some 0\<rparr>) = Inl NonFinite"
proof (intro conjI)
  show "visibleRange plotted0 = (-1, 1)"
    by (simp add: visibleRange_def plotted0_def viewport0_def)
  have f: "scale st \<noteq> 0" "0 < spacing st"
    if "st = plotted0\<lparr>functionList := [\<lparr>fn_id = 0, fn_mode = NORMAL, fn_root = 9\<rparr>, spiral0]\<rparr>"
    for st
    using that by (simp_all add: plotted0_def viewport0_def)
  have step: "handleCalculatingWorkerMessaging edit0 plotted0 =
      fullyRefreshFunctions
        (plotted0\<lparr>functionList := [\<lparr>fn_id = 0, fn_mode = NORMAL, fn_root = 9\<rparr>, spiral0]\<rparr>)"
    by (simp add: handleCalculatingWorkerMessaging_def List_get_def List_set_def edit0_def
          plotted0_def viewport0_def square0_def RootToken_create_def)
  show "handleCalculatingWorkerMessaging edit0 plotted0 =
     Inr (plotted0\<lparr>functionList := [\<lparr>fn_id = 0, fn_mode = NORMAL, fn_root = 9\<rparr>, spiral0],
                   displayedPoints := [],
                   posted := [Evaluate 0 NORMAL 9 (-1) ''add'', Evaluate 0 NORMAL 9 0 ''add'',
                              Evaluate 0 NORMAL 9 1 ''add'', Evaluate 1 POLAR 8 0 ''add'',
                              Evaluate 1 POLAR 8 1 ''add'']\<rparr>)"
    unfolding step fullyRefreshFunctions_returns [OF f [OF refl]]
    by (simp add: plotted0_def viewport0_def spiral0_def createPoint_def visibleRange_def
          requestsOver_def ascendingRequests_def sampleCount_def delta_def upt_2 upt_3)
  show "handleTouchZoom origin0 5 5 5 5 squeezing0 =
     Inr (squeezing0\<lparr>scale := 0, spacing := 2, lastZoomingSize := Some 0\<rparr>)"
    by (simp add: handleTouchZoom_def falsy_def scalingAdapt_def zoomFunctionImage_def Let_def
          squeezing0_def viewport0_def origin0_def createPoint_def)
  show "handleCalculatingWorkerMessaging edit0
     (squeezing0\<lparr>scale := 0, spacing := 2, lastZoomingSize := Some 0\<rparr>) = Inl NonFinite"
    by (simp add: handleCalculatingWorkerMessaging_def List_get_def List_set_def
          fullyRefreshFunctions_def edit0_def squeezing0_def viewport0_def)
qed

section \<open>The stored visible range\<close>

lemma moveFunctionImage_frame:
  assumes "displayedPoints st \<noteq> []" and "scale st \<noteq> 0" and "0 < spacing st"
  shows "\<exists>st'. moveFunctionImage direction st = Inr st' \<and>
           cameraPosition st' = visibleRange st'"
  by (simp add: moveFunctionImage_returns [OF assms] visibleRange_def)

lemma zoomFunctionImage_frame:
  assumes "displayedPoints st \<noteq> []" and "scale st \<noteq> 0" and "0 < spacing st"
  shows "\<exists>st'. zoomFunctionImage zoom st = Inr st' \<and>
           cameraPosition st' = visibleRange st'"
  by (cases zoom)
    (simp_all add: zoomFunctionImage_in_returns [OF assms]
       zoomFunctionImage_out_returns [OF assms] visibleRange_def)

lemma zoomFunctionImage_keeps:
  assumes "displayedPoints st = [] \<or> scale st \<noteq> 0" and "0 < spacing st"
  shows "\<exists>st'. zoomFunctionImage zoom st = Inr st' \<and> center st' = center st \<and>
           scale st' = scale st \<and> mousePoint st' = mousePoint st"
proof (cases "displayedPoints st = []")
  case True
  then show ?thesis by (simp add: zoomFunctionImage_def)
next
  case False
  with assms(1) have "scale st \<noteq> 0" by simp
  from False this assms(2) show ?thesis
    by (cases zoom)
      (simp_all add: zoomFunctionImage_in_returns zoomFunctionImage_out_returns)
qed

lemma pinch_size_nonzero:
  fixes ax ay bx b_y :: real
  assumes "ax \<noteq> bx \<or> ay \<noteq> b_y"
  shows "sqrt ((ax - bx)\<^sup>2 + (ay - b_y)\<^sup>2) \<noteq> 0"
  using assms by (auto simp: sum_power2_eq_zero_iff)

lemma pinch_tail:
  assumes "displayedPoints st \<noteq> []" and "scale st \<noteq> 0" and "0 < spacing st"
  shows "\<exists>st'. (case zoomFunctionImage zoom st of Inl e \<Rightarrow> Inl e
                 | Inr st3 \<Rightarrow> Inr (st3\<lparr>lastZoomingSize := v\<rparr>)) = Inr st' \<and>
              cameraPosition st' = visibleRange st'"
proof -
  from zoomFunctionImage_frame [OF assms]
  obtain st3 where "zoomFunctionImage zoom st = Inr st3" "cameraPosition st3 = visibleRange st3"
    by blast
  then show ?thesis by (simp add: visibleRange_def)
qed

text \<open>
  C1, as amended: when the point stream is not empty, the stored visible range
  \<open>cameraPosition\<close> equals \<open>[-center.x/scale, (canvasWidth - center.x)/scale]\<close> on return
  from \<open>moveFunctionImage\<close> and from \<open>zoomFunctionImage\<close>, hence after a pan through
  \<open>handleMouseMove\<close> with the mouse down and after a pinch step of \<open>handleTouchZoom\<close> that
  has a baseline and two distinct touch points. (The scale is not 0 and the grid spacing is
  positive.)
\<close>

theorem camera_follows_pan_and_zoom:
  assumes "displayedPoints st \<noteq> []" and "0 < spacing st"
  shows "(scale st \<noteq> 0 \<longrightarrow>
            (\<exists>st'. moveFunctionImage direction st = Inr st' \<and>
                   cameraPosition st' = visibleRange st') \<and>
            (\<exists>st'. zoomFunctionImage zoom st = Inr st' \<and>
                   cameraPosition st' = visibleRange st')) \<and>
         (scale st \<noteq> 0 \<and> mouseDown st \<longrightarrow>
            (\<exists>st'. handleMouseMove rect cx cy direction st = Inr st' \<and>
                   cameraPosition st' = visibleRange st')) \<and>
         (\<forall>zs. zoomingScale st = Some zs \<and> zs \<noteq> 0 \<and>
               (cxA * ratio st \<noteq> cxB * ratio st \<or> cyA * ratio st \<noteq> cyB * ratio st) \<longrightarrow>
            (\<exists>st'. handleTouchZoom rect cxA cyA cxB cyB st = Inr st' \<and>
                   cameraPosition st' = visibleRange st'))"
proof (intro conjI impI allI)
  assume "scale st \<noteq> 0"
  then show "\<exists>st'. moveFunctionImage direction st = Inr st' \<and> cameraPosition st' = visibleRange st'"
    by (intro moveFunctionImage_frame assms)
next
  assume "scale st \<noteq> 0"
  then show "\<exists>st'. zoomFunctionImage zoom st = Inr st' \<and> cameraPosition st' = visibleRange st'"
    by (intro zoomFunctionImage_frame assms)
next
  assume a: "scale st \<noteq> 0 \<and> mouseDown st"
  let ?st1 = "refreshMousePoint rect (cx * ratio st) (cy * ratio st) st"
  let ?st2 = "?st1\<lparr>center := \<lparr>pt_x = pt_x (mousePoint ?st1) - mouseDX ?st1,
                                 pt_y = pt_y (mousePoint ?st1) - mouseDY ?st1\<rparr>\<rparr>"
  have "displayedPoints ?st2 \<noteq> []" "scale ?st2 \<noteq> 0" "0 < spacing ?st2"
    using assms a by (simp_all add: refreshMousePoint_def)
  then have "\<exists>st'. moveFunctionImage direction ?st2 = Inr st' \<and> cameraPosition st' = visibleRange st'"
    by (rule moveFunctionImage_frame)
  moreover have "handleMouseMove rect cx cy direction st = moveFunctionImage direction ?st2"
    using a by (simp add: handleMouseMove_def Let_def refreshMousePoint_def)
  ultimately
  show "\<exists>st'. handleMouseMove rect cx cy direction st = Inr st' \<and>
              cameraPosition st' = visibleRange st'"
    by simp
next
  fix zs
  assume a: "zoomingScale st = Some zs \<and> zs \<noteq> 0 \<and>
             (cxA * ratio st \<noteq> cxB * ratio st \<or> cyA * ratio st \<noteq> cyB * ratio st)"
  have truthy: "(if falsy (zoomingScale S) then None else zoomingScale S) = Some zs"
    if "zoomingScale S = Some zs" for S :: "'a Render"
    using that a by (simp add: falsy_def)
  have size: "sqrt ((cxA * ratio st - rect_left rect - (cxB * ratio st - rect_left rect))\<^sup>2 +
                    (cyA * ratio st - rect_top rect - (cyB * ratio st - rect_top rect))\<^sup>2) \<noteq> 0"
    using a by (intro pinch_size_nonzero) auto
  show "\<exists>st'. handleTouchZoom rect cxA cyA cxB cyB st = Inr st' \<and>
              cameraPosition st' = visibleRange st'"
    unfolding handleTouchZoom_def Let_def
    apply (subst truthy)
     apply (simp add: a)
    apply (simp only: option.case)
    apply (rule pinch_tail)
      apply (simp add: assms scalingAdapt_def)
     apply (simp only: scalingAdapt_scale)
     apply (use a size in \<open>simp add: createPoint_def\<close>)
    apply (rule scalingAdapt_spacing_pos)
    apply (simp add: assms)
    done
qed

theorem camera_follows_pan_and_zoom_witness:
  "displayedPoints (pinching0\<lparr>mouseDown := True\<rparr>) \<noteq> [] \<and>
   0 < spacing (pinching0\<lparr>mouseDown := True\<rparr>) \<and>
   scale (pinching0\<lparr>mouseDown := True\<rparr>) \<noteq> 0 \<and>
   mouseDown (pinching0\<lparr>mouseDown := True\<rparr>) \<and>
   zoomingScale (pinching0\<lparr>mouseDown := True\<rparr>) = Some 1 \<and>
   0 * ratio (pinching0\<lparr>mouseDown := True\<rparr>) \<noteq> 150 * ratio (pinching0\<lparr>mouseDown := True\<rparr>) \<and>
   (\<exists>st'. moveFunctionImage LEFT (pinching0\<lparr>mouseDown := True\<rparr>) = Inr st' \<and>
          cameraPosition st' = visibleRange st') \<and>
   (\<exists>st'. zoomFunctionImage ZOOM_IN (pinching0\<lparr>mouseDown := True\<rparr>) = Inr st' \<and>
          cameraPosition st' = visibleRange st') \<and>
   (\<exists>st'. handleMouseMove origin0 100 300 LEFT (pinching0\<lparr>mouseDown := True\<rparr>) = Inr st' \<and>
          cameraPosition st' = visibleRange st') \<and>
   (\<exists>st'. handleTouchZoom origin0 0 0 150 0 (pinching0\<lparr>mouseDown := True\<rparr>) = Inr st' \<and>
          cameraPosition st' = visibleRange st')"
proof -
  let ?w = "pinching0\<lparr>mouseDown := True\<rparr>"
  have h: "displayedPoints ?w \<noteq> []" "0 < spacing ?w"
    by (simp_all add: pinching0_def viewport0_def)
  have g: "scale ?w \<noteq> 0" "mouseDown ?w" "zoomingScale ?w = Some 1"
    "0 * ratio ?w \<noteq> 150 * ratio ?w"
    by (simp_all add: pinching0_def viewport0_def)
  note T = camera_follows_pan_and_zoom
    [where st = ?w and direction = LEFT and zoom = ZOOM_IN and rect = origin0
       and cx = 100 and cy = 300 and cxA = 0 and cyA = 0 and cxB = 150 and cyB = 0, OF h]
  from T g(1) have A: "\<exists>st'. moveFunctionImage LEFT ?w = Inr st' \<and>
      cameraPosition st' = visibleRange st'"
    by blast
  from T g(1) have B: "\<exists>st'. zoomFunctionImage ZOOM_IN ?w = Inr st' \<and>
      cameraPosition st' = visibleRange st'"
    by blast
  from T g(1,2) have C: "\<exists>st'. handleMouseMove origin0 100 300 LEFT ?w = Inr st' \<and>
      cameraPosition st' = visibleRange st'"
    by blast
  have "zoomingScale ?w = Some 1 \<and> (1::real) \<noteq> 0 \<and>
        (0 * ratio ?w \<noteq> 150 * ratio ?w \<or> 0 * ratio ?w \<noteq> 0 * ratio ?w)"
    using g(3,4) by simp
  with T have D: "\<exists>st'. handleTouchZoom origin0 0 0 150 0 ?w = Inr st' \<and>
      cameraPosition st' = visibleRange st'"
    by blast
  from h g A B C D show ?thesis by (intro conjI)
qed

text \<open>
  C1 as stated fails in two ways. On an empty point stream a drag to pixel 100 moves the
  centre from 400 to 100, so the visible range is \<open>[-1, 7]\<close>, but \<open>moveFunctionImage\<close>
  returns at once and \<open>cameraPosition\<close> stays \<open>[-4, 4]\<close>. And \<open>handleWheel\<close> moves the centre
  after \<open>zoomFunctionImage\<close> has stored the range: with the cursor at pixel 0 a wheel step
  from scale 100 to 107 stores \<open>[-400/107, 400/107]\<close> and then moves the centre to 428, so
  the visible range is \<open>[-4, 372/107]\<close>.
\<close>

theorem camera_stale_after_pan_and_wheel:
  "handleMouseMove origin0 100 300 LEFT dragging0 =
     Inr (dragging0\<lparr>mousePoint := createPoint 100 300, center := createPoint 100 300\<rparr>) \<and>
   cameraPosition (dragging0\<lparr>mousePoint := createPoint 100 300, center := createPoint 100 300\<rparr>)
     = (-4, 4) \<and>
   visibleRange (dragging0\<lparr>mousePoint := createPoint 100 300, center := createPoint 100 300\<rparr>)
     = (-1, 7) \<and>
   handleWheel (-1) (viewport0\<lparr>displayedPoints := [createPoint 0 0]\<rparr>) =
     Inr (viewport0\<lparr>scale := 107, cameraPosition := (- (400 / 107), 400 / 107),
                    center := createPoint 428 321\<rparr>) \<and>
   cameraPosition (viewport0\<lparr>scale := 107, cameraPosition := (- (400 / 107), 400 / 107),
                    center := createPoint 428 321\<rparr>) = (- (400 / 107), 400 / 107) \<and>
   visibleRange (viewport0\<lparr>scale := 107, cameraPosition := (- (400 / 107), 400 / 107),
                    center := createPoint 428 321\<rparr>) = (-4, 372 / 107)"
proof (intro conjI)
  show "handleMouseMove origin0 100 300 LEFT dragging0 =
     Inr (dragging0\<lparr>mousePoint := createPoint 100 300, center := createPoint 100 300\<rparr>)"
    by (simp add: handleMouseMove_def refreshMousePoint_def moveFunctionImage_def Let_def
          dragging0_def viewport0_def origin0_def createPoint_def)
  show "cameraPosition (dragging0\<lparr>mousePoint := createPoint 100 300, center := createPoint 100 300\<rparr>)
     = (-4, 4)"
    by (simp add: dragging0_def viewport0_def)
  show "visibleRange (dragging0\<lparr>mousePoint := createPoint 100 300, center := createPoint 100 300\<rparr>)
     = (-1, 7)"
    by (simp add: visibleRange_def dragging0_def viewport0_def createPoint_def)
  show "handleWheel (-1) (viewport0\<lparr>displayedPoints := [createPoint 0 0]\<rparr>) =
     Inr (viewport0\<lparr>scale := 107, cameraPosition := (- (400 / 107), 400 / 107),
                    center := createPoint 428 321\<rparr>)"
    by (simp add: handleWheel_def pointToCoordinates_def scalingAdapt_def
          zoomFunctionImage_def Let_def viewport0_def createPoint_def)
  show "cameraPosition (viewport0\<lparr>scale := 107, cameraPosition := (- (400 / 107), 400 / 107),
                    center := createPoint 428 321\<rparr>) = (- (400 / 107), 400 / 107)"
    by (simp add: viewport0_def)
  show "visibleRange (viewport0\<lparr>scale := 107, cameraPosition := (- (400 / 107), 400 / 107),
                    center := createPoint 428 321\<rparr>) = (-4, 372 / 107)"
    by (simp add: visibleRange_def viewport0_def createPoint_def)
qed

section \<open>Mouse-wheel zoom\<close>

text \<open>
  C6, as amended: for a wheel event in a state whose scale is not 0, whose grid spacing is
  positive and whose adjusted scale is not 0, \<open>handleWheel\<close> returns; the scale has gone
  down by \<open>7 / spacing\<close> when \<open>dy > 0\<close> and up by \<open>7 / spacing\<close> otherwise (the spacing
  being the one before the event); and the coordinate-space position of the mouse point is
  the same in the new state as in the old one.
\<close>

theorem wheel_keeps_cursor_position:
  assumes "scale st \<noteq> 0" and "0 < spacing st"
    and "(if dy > 0 then scale st - 7 / spacing st else scale st + 7 / spacing st) \<noteq> 0"
  shows "\<exists>st' p. handleWheel dy st = Inr st' \<and>
           scale st' = (if dy > 0 then scale st - 7 / spacing st else scale st + 7 / spacing st) \<and>
           mousePoint st' = mousePoint st \<and>
           pointToCoordinates st (mousePoint st) = Some p \<and>
           pointToCoordinates st' (mousePoint st') = Some p"
proof -
  define s' where "s' = (if dy > 0 then scale st - 7 / spacing st else scale st + 7 / spacing st)"
  define st1 where "st1 = scalingAdapt (st\<lparr>scale := s'\<rparr>)"
  have sc1: "scale st1 = s'" and c1: "center st1 = center st"
    and m1: "mousePoint st1 = mousePoint st"
    by (simp_all add: st1_def scalingAdapt_def)
  have sp1: "0 < spacing st1"
    unfolding st1_def using assms(2) by (intro scalingAdapt_spacing_pos) simp
  have s'0: "s' \<noteq> 0" using assms(3) by (simp add: s'_def)
  with sc1 have "displayedPoints st1 = [] \<or> scale st1 \<noteq> 0" by simp
  from zoomFunctionImage_keeps [OF this sp1, of "if dy > 0 then ZOOM_OUT else ZOOM_IN"]
  obtain st2 where z: "zoomFunctionImage (if dy > 0 then ZOOM_OUT else ZOOM_IN) st1 = Inr st2"
    and c2: "center st2 = center st" and sc2: "scale st2 = s'"
    and m2: "mousePoint st2 = mousePoint st"
    using sc1 c1 m1 by auto
  define p where "p = createPoint ((pt_x (mousePoint st) - pt_x (center st)) / scale st)
                        (- (pt_y (mousePoint st) - pt_y (center st)) / scale st)"
  define q where "q = createPoint ((pt_x (mousePoint st) - pt_x (center st)) / s')
                        (- (pt_y (mousePoint st) - pt_y (center st)) / s')"
  define st3 where
    "st3 = st2\<lparr>center := \<lparr>pt_x = pt_x (center st2) + (pt_x q - pt_x p) * scale st2,
                            pt_y = pt_y (center st2) - (pt_y q - pt_y p) * scale st2\<rparr>\<rparr>"
  have origin: "pointToCoordinates st (mousePoint st) = Some p"
    using assms(1) by (simp add: pointToCoordinates_def p_def)
  have current: "pointToCoordinates st2 (mousePoint st2) = Some q"
    using s'0 by (simp add: pointToCoordinates_def q_def c2 sc2 m2)
  have spz: "spacing st \<noteq> 0" using assms(2) by simp
  have run: "handleWheel dy st = Inr st3"
    unfolding handleWheel_def origin
    by (simp only: option.case spz if_False Let_def s'_def [symmetric] st1_def [symmetric]
          z sum.case current st3_def)
  have "pointToCoordinates st3 (mousePoint st3) = Some p"
    using s'0 assms(1)
    by (simp add: pointToCoordinates_def st3_def sc2 c2 m2 p_def q_def createPoint_def
          field_simps)
  moreover have "scale st3 = s'" and "mousePoint st3 = mousePoint st"
    by (simp_all add: st3_def sc2 m2)
  ultimately show ?thesis
    using run origin by (simp add: s'_def)
qed

theorem wheel_keeps_cursor_position_witness:
  "scale hovering0 \<noteq> 0 \<and> 0 < spacing hovering0 \<and>
   scale hovering0 - 7 / spacing hovering0 \<noteq> 0 \<and>
   (\<exists>st'. handleWheel 1 hovering0 = Inr st' \<and> scale st' = 93 \<and>
      mousePoint st' = createPoint 500 200 \<and>
      pointToCoordinates hovering0 (mousePoint hovering0) = Some (createPoint 1 1) \<and>
      pointToCoordinates st' (mousePoint st') = Some (createPoint 1 1))"
proof -
  have h: "scale hovering0 \<noteq> 0" "0 < spacing hovering0"
    "(if (1::real) > 0 then scale hovering0 - 7 / spacing hovering0
      else scale hovering0 + 7 / spacing hovering0) \<noteq> 0"
    by (simp_all add: hovering0_def viewport0_def)
  have before: "pointToCoordinates hovering0 (mousePoint hovering0) = Some (createPoint 1 1)"
    by (simp add: pointToCoordinates_def hovering0_def viewport0_def createPoint_def)
  have vals: "(if (1::real) > 0 then scale hovering0 - 7 / spacing hovering0
               else scale hovering0 + 7 / spacing hovering0) = 93"
    "mousePoint hovering0 = createPoint 500 200"
    by (simp_all add: hovering0_def viewport0_def)
  from wheel_keeps_cursor_position [OF h]
  obtain st' p where "handleWheel 1 hovering0 = Inr st'" "scale st' = 93"
    "mousePoint st' = createPoint 500 200"
    "pointToCoordinates hovering0 (mousePoint hovering0) = Some p"
    "pointToCoordinates st' (mousePoint st') = Some p"
    unfolding vals by blast
  with before have "\<exists>st'. handleWheel 1 hovering0 = Inr st' \<and> scale st' = 93 \<and>
      mousePoint st' = createPoint 500 200 \<and>
      pointToCoordinates hovering0 (mousePoint hovering0) = Some (createPoint 1 1) \<and>
      pointToCoordinates st' (mousePoint st') = Some (createPoint 1 1)"
    by auto
  moreover have "scale hovering0 - 7 / spacing hovering0 \<noteq> 0"
    by (simp add: hovering0_def viewport0_def)
  ultimately show ?thesis using h(1,2) by (intro conjI)
qed

lemma sqrt_49: "sqrt 49 = 7"
  using real_sqrt_abs [of 7] by simp

text \<open>
  C6 as stated fails when the adjusted scale is 0. A pinch that began 200 pixels wide at
  scale 100 and is now 7 pixels wide sets the scale to \<open>7/2\<close> and the spacing to 2. The
  cursor at pixel \<open>(0, 0)\<close> is then over the coordinates \<open>(-800/7, 600/7)\<close>; a wheel step
  with \<open>dy > 0\<close> takes \<open>7 / 2\<close> off the scale, and the position after the zoom is a
  division by zero: the handler does not end in a state with a finite centre.
\<close>

theorem wheel_to_zero_scale_loses_cursor:
  "handleTouchZoom origin0 0 0 7 0 pinched0 = Inr tiny0 \<and>
   scale tiny0 = 7 / 2 \<and> spacing tiny0 = 2 \<and>
   pointToCoordinates tiny0 (mousePoint tiny0) = Some (createPoint (- (800 / 7)) (600 / 7)) \<and>
   handleWheel 1 tiny0 = Inl NonFinite"
proof (intro conjI)
  show "handleTouchZoom origin0 0 0 7 0 pinched0 = Inr tiny0"
    by (simp add: handleTouchZoom_def falsy_def scalingAdapt_def zoomFunctionImage_def Let_def
          pinched0_def tiny0_def viewport0_def origin0_def createPoint_def sqrt_49)
  show "scale tiny0 = 7 / 2" and "spacing tiny0 = 2"
    by (simp_all add: tiny0_def pinched0_def viewport0_def)
  show "pointToCoordinates tiny0 (mousePoint tiny0) = Some (createPoint (- (800 / 7)) (600 / 7))"
    by (simp add: pointToCoordinates_def tiny0_def pinched0_def viewport0_def createPoint_def)
  show "handleWheel 1 tiny0 = Inl NonFinite"
    by (simp add: handleWheel_def pointToCoordinates_def scalingAdapt_def
          zoomFunctionImage_def Let_def tiny0_def pinched0_def viewport0_def createPoint_def)
qed

end
